theory Spec2Isabelle
  imports Main "HOL-Library.AList"
begin

section \<open>The LSIF indexer engine of lsif-tsc (src/tsc/src/lsif.ts)\<close>

text \<open>
  The engine is a set of mutable objects (ProjectData, DocumentData, SymbolData and its
  variants, SymbolDataPartition, DataManager) that emit vertices and edges to an emitter.
  The model threads one record, the \<open>World\<close>, through every method: it holds the emitter's
  output so far, the id generator's counter, the fields of the DataManager and two heaps
  for the objects that are shared by reference (DocumentData and SymbolData).
  A method that can throw returns an \<open>Outcome\<close> together with the world at the moment of
  the throw: a JavaScript exception does not undo what was emitted before it.
\<close>

subsection \<open>Elements of the graph\<close>

type_synonym Id = nat

datatype ItemEdgeProperties = declarations | definitions | references

datatype EventKind = begin_event | end_event

datatype MonikerKind = import_kind | export_kind

record Position =
  line :: nat
  character :: nat

text \<open>lsp.Range: a start and an end position.\<close>

record lsp_Range =
  range_start :: Position
  range_end :: Position

datatype RangeTag = definition_tag string | reference_tag string

text \<open>A Range vertex (label 'range'): an id, the span and the tag.\<close>

record RangeVertex = lsp_Range +
  range_id :: Id
  range_tag :: RangeTag

record Document =
  document_id :: Id
  document_uri :: string

record Project =
  project_id :: Id

text \<open>The payloads below are opaque to the engine: it only hands them to the builder.\<close>

type_synonym Hover = string
type_synonym Diagnostic = string
type_synonym FoldingRange = "nat \<times> nat \<times> nat \<times> nat"

datatype RangeBasedDocumentSymbol = DocumentSymbol Id "RangeBasedDocumentSymbol list"

datatype Vertex =
    V_metaData Id
  | V_project Project
  | V_document Document
  | V_event Id EventKind Id
  | V_resultSet Id
  | V_definitionResult Id
  | V_referenceResult Id
  | V_hoverResult Id Hover
  | V_moniker Id MonikerKind string string
  | V_range RangeVertex
  | V_diagnosticResult Id "Diagnostic list"
  | V_foldingRangeResult Id "FoldingRange list"
  | V_documentSymbolResult Id "RangeBasedDocumentSymbol list"

datatype EdgeLabel =
    contains_edge | item_edge | next_edge | moniker_edge | hover_edge | definition_edge
  | references_edge | diagnostic_edge | foldingRange_edge | documentSymbol_edge

text \<open>
  An edge: its id, label, \<open>outV\<close>, the \<open>inV\<close>s, and for an item edge the document id and the
  optional property tag.
\<close>

record Edge =
  edge_id :: Id
  edge_label :: EdgeLabel
  outV :: Id
  inVs :: "Id list"
  edge_document :: "Id option"
  edge_property :: "ItemEdgeProperties option"

datatype Element = Vtx Vertex | Edg Edge

fun vertex_id :: "Vertex \<Rightarrow> Id" where
  "vertex_id (V_metaData i) = i"
| "vertex_id (V_project p) = project_id p"
| "vertex_id (V_document d) = document_id d"
| "vertex_id (V_event i k t) = i"
| "vertex_id (V_resultSet i) = i"
| "vertex_id (V_definitionResult i) = i"
| "vertex_id (V_referenceResult i) = i"
| "vertex_id (V_hoverResult i h) = i"
| "vertex_id (V_moniker i k s n) = i"
| "vertex_id (V_range r) = range_id r"
| "vertex_id (V_diagnosticResult i ds) = i"
| "vertex_id (V_foldingRangeResult i fs) = i"
| "vertex_id (V_documentSymbolResult i ss) = i"

fun element_id :: "Element \<Rightarrow> Id" where
  "element_id (Vtx v) = vertex_id v"
| "element_id (Edg e) = edge_id e"

text \<open>The ids an edge names: \<open>outV\<close>, every \<open>inV\<close>, and the document of an item edge.\<close>

definition edge_refs :: "Edge \<Rightarrow> Id list" where
  "edge_refs e = outV e # inVs e @ (case edge_document e of None \<Rightarrow> [] | Some d \<Rightarrow> [d])"

subsection \<open>Syntax nodes\<close>

text \<open>
  A ts.Node is compared by reference. The model gives every node the handle \<open>node_ref\<close>;
  a source file also has its file name and the declaration-file flag.
\<close>

record SourceFile =
  node_ref :: nat
  fileName :: string
  isDeclarationFile :: bool

datatype Node = SourceFileNode SourceFile | OtherNode nat

fun isSourceFile :: "Node \<Rightarrow> bool" where
  "isSourceFile (SourceFileNode f) = True"
| "isSourceFile (OtherNode n) = False"

subsection \<open>The objects\<close>

text \<open>ProjectData: the project vertex, the pending documents and the diagnostics.\<close>

record ProjectData =
  pd_project :: Project
  pd_documents :: "Document list"
  pd_diagnostics :: "Diagnostic list"

record DocumentData =
  dd_document :: Document
  dd_monikerPath :: "string option"
  dd_externalLibrary :: bool
  dd_ranges :: "RangeVertex list"
  dd_diagnostics :: "Diagnostic list option"
  dd_foldingRanges :: "FoldingRange list option"
  dd_documentSymbols :: "RangeBasedDocumentSymbol list option"

text \<open>Handles of the objects shared by reference.\<close>

type_synonym SymbolRef = nat
type_synonym DocumentRef = nat

text \<open>
  SymbolDataPartition. \<open>referenceRanges\<close> is a JavaScript Map, which iterates in insertion
  order: an association list. The three fields start undefined.
\<close>

record SymbolDataPartition =
  sp_symbolData :: SymbolRef
  sp_document :: Document
  sp_definitionRanges :: "RangeVertex list option"
  sp_referenceRanges :: "(ItemEdgeProperties \<times> RangeVertex list) list option"
  sp_referenceResults :: "Id list option"

text \<open>
  \<open>partitions: Map<string, SymbolDataPartition | null> | null | undefined\<close>.
  A partition object is reachable only through its slot in this map, so the model keeps
  the partition in the slot and a method of the partition updates the slot.
\<close>

datatype Partitions =
    partitions_undefined
  | partitions_null
  | partitions_map "(string \<times> SymbolDataPartition option) list"

text \<open>\<open>declarationInfo: DefinitionInfo | DefinitionInfo[] | undefined\<close>\<close>

datatype 'd DeclarationInfo = info_undefined | info_single 'd | info_array "'d list"

text \<open>
  The four classes: StandardSymbolData and its subclasses AliasedSymbolData (aliased,
  rename), MethodSymbolData (sourceFile, bases) and UnionOrIntersectionSymbolData
  (sourceFile, elements).
\<close>

datatype Variant =
    Standard
  | Aliased SymbolRef bool
  | Method "SourceFile option" "SymbolRef list option"
  | UnionOrIntersection "SourceFile option" "SymbolRef list"

record 'd SymbolData =
  sd_id :: string
  sd_resultSet :: Id
  sd_declarationInfo :: "'d DeclarationInfo"
  sd_definitionResult :: "Id option"
  sd_referenceResult :: "Id option"
  sd_partitions :: Partitions
  sd_scope :: "Node option"
  sd_variant :: Variant

text \<open>
  The world: the emitter's output in emission order, the counter of the id generator
  (the caller's \<open>idGenerator\<close>; the sequential integers of the tool), the fields of the
  DataManager (\<open>projectData\<close>, \<open>documentDatas\<close>, \<open>symbolDatas\<close>, \<open>clearOnNode\<close>; the three maps
  are JavaScript Maps) and the two heaps.
\<close>

record 'd World =
  emitted :: "Element list"
  nextId :: Id
  projectData :: ProjectData
  documentDatas :: "(string \<times> DocumentRef option) list"
  symbolDatas :: "(string \<times> SymbolRef option) list"
  clearOnNode :: "(Node \<times> SymbolRef list) list"
  documentHeap :: "DocumentRef \<Rightarrow> DocumentData"
  documentCount :: nat
  symbolHeap :: "SymbolRef \<Rightarrow> 'd SymbolData"
  symbolCount :: nat

datatype Error =
    PartitionsAlreadyCleared string
  | PartitionForFileCleared string
  | NoDocumentData string
  | LocalSymbolMoreThanOnePartition
  | NoPartitionManaged string
  | NeitherSourceFileNorScope
  | ShouldntBeCalled
  | AlreadyManagedDocument string
  | NoDocumentDataForFile string
  | AlreadyManagedSymbol string
  | SymbolDataAlreadyCleared
  | TypeError
  | StackOverflow
  | NoSourceFileSelection
  | TransientNeedsDeclaration
  | ResolverRequiresSourceFile
  | NoCurrentDocumentPartition
  | UnbalancedBeginEnd

datatype 'a Outcome = Throw Error | Return 'a

subsection \<open>Emitter and builder\<close>

definition emit :: "Element \<Rightarrow> ('d, 'z) World_scheme \<Rightarrow> ('d, 'z) World_scheme" where
  "emit e w = w\<lparr>emitted := emitted w @ [e]\<rparr>"

text \<open>
  Modelled from the spec: the Builder of ./graph (VertexBuilder, EdgeBuilder) is not in
  the sources. Every builder call takes one fresh id from the id generator and composes
  it with the supplied attributes (spec 4.1).
\<close>

definition fresh :: "('d, 'z) World_scheme \<Rightarrow> Id \<times> ('d, 'z) World_scheme" where
  "fresh w = (nextId w, w\<lparr>nextId := Suc (nextId w)\<rparr>)"

definition mk_edge :: "EdgeLabel \<Rightarrow> Id \<Rightarrow> Id list \<Rightarrow> Id option \<Rightarrow> ItemEdgeProperties option
    \<Rightarrow> ('d, 'z) World_scheme \<Rightarrow> Element \<times> ('d, 'z) World_scheme" where
  "mk_edge l out ins doc prop w =
     (case fresh w of (i, w1) \<Rightarrow>
        (Edg \<lparr>edge_id = i, edge_label = l, outV = out, inVs = ins,
              edge_document = doc, edge_property = prop\<rparr>, w1))"

text \<open>\<open>this.emit(this.edge.<label>(...))\<close>: build the edge, then emit it.\<close>

definition emit_edge :: "EdgeLabel \<Rightarrow> Id \<Rightarrow> Id list \<Rightarrow> Id option \<Rightarrow> ItemEdgeProperties option
    \<Rightarrow> ('d, 'z) World_scheme \<Rightarrow> ('d, 'z) World_scheme" where
  "emit_edge l out ins doc prop w =
     (case mk_edge l out ins doc prop w of (e, w1) \<Rightarrow> emit e w1)"

subsection \<open>ProjectData\<close>

definition ProjectData_begin :: "('d, 'z) World_scheme \<Rightarrow> ('d, 'z) World_scheme" where
  "ProjectData_begin w =
     (let p = pd_project (projectData w);
          w1 = emit (Vtx (V_project p)) w
      in case fresh w1 of (i, w2) \<Rightarrow> emit (Vtx (V_event i begin_event (project_id p))) w2)"

definition ProjectData_addDocument :: "Document \<Rightarrow> ('d, 'z) World_scheme \<Rightarrow> ('d, 'z) World_scheme" where
  "ProjectData_addDocument document w =
     (let pd = projectData w;
          docs = pd_documents pd @ [document];
          w1 = w\<lparr>projectData := pd\<lparr>pd_documents := docs\<rparr>\<rparr>
      in if length docs > 32
         then (let w2 = emit_edge contains_edge (project_id (pd_project pd)) (map document_id docs)
                          None None w1
               in w2\<lparr>projectData := (projectData w2)\<lparr>pd_documents := []\<rparr>\<rparr>)
         else w1)"

definition ProjectData_addDiagnostic :: "Diagnostic \<Rightarrow> ('d, 'z) World_scheme \<Rightarrow> ('d, 'z) World_scheme" where
  "ProjectData_addDiagnostic d w =
     w\<lparr>projectData := (projectData w)\<lparr>pd_diagnostics := pd_diagnostics (projectData w) @ [d]\<rparr>\<rparr>"

definition ProjectData_end :: "('d, 'z) World_scheme \<Rightarrow> ('d, 'z) World_scheme" where
  "ProjectData_end w =
     (let p = pd_project (projectData w);
          w1 = (if length (pd_documents (projectData w)) > 0
                then (let w' = emit_edge contains_edge (project_id p)
                                 (map document_id (pd_documents (projectData w))) None None w
                      in w'\<lparr>projectData := (projectData w')\<lparr>pd_documents := []\<rparr>\<rparr>)
                else w);
          w2 = (if length (pd_diagnostics (projectData w1)) > 0
                then (case fresh w1 of (i, wa) \<Rightarrow>
                        emit_edge diagnostic_edge (project_id p) [i] None None
                          (emit (Vtx (V_diagnosticResult i (pd_diagnostics (projectData w1)))) wa))
                else w1)
      in case fresh w2 of (i, w3) \<Rightarrow> emit (Vtx (V_event i end_event (project_id p))) w3)"

subsection \<open>Control flow: sequencing with exceptions\<close>

definition ret :: "'a \<Rightarrow> 'w \<Rightarrow> 'a Outcome \<times> 'w" where
  "ret x w = (Return x, w)"

definition throw :: "Error \<Rightarrow> 'w \<Rightarrow> 'a Outcome \<times> 'w" where
  "throw e w = (Throw e, w)"

definition seq :: "('w \<Rightarrow> 'a Outcome \<times> 'w) \<Rightarrow> ('a \<Rightarrow> 'w \<Rightarrow> 'b Outcome \<times> 'w)
    \<Rightarrow> 'w \<Rightarrow> 'b Outcome \<times> 'w" where
  "seq m f w = (case m w of (Throw e, w1) \<Rightarrow> (Throw e, w1) | (Return x, w1) \<Rightarrow> f x w1)"

definition lift :: "('w \<Rightarrow> 'w) \<Rightarrow> 'w \<Rightarrow> unit Outcome \<times> 'w" where
  "lift f w = (Return (), f w)"

text \<open>\<open>for (let x of xs) { body }\<close>; a throw in the body leaves the loop.\<close>

primrec forEach :: "'a list \<Rightarrow> ('a \<Rightarrow> 'w \<Rightarrow> unit Outcome \<times> 'w) \<Rightarrow> 'w \<Rightarrow> unit Outcome \<times> 'w" where
  "forEach [] body w = (Return (), w)"
| "forEach (x # xs) body w =
     (case body x w of (Throw e, w1) \<Rightarrow> (Throw e, w1) | (Return u, w1) \<Rightarrow> forEach xs body w1)"

subsection \<open>DocumentData\<close>

definition update_document :: "DocumentRef \<Rightarrow> (DocumentData \<Rightarrow> DocumentData) \<Rightarrow> ('d, 'z) World_scheme \<Rightarrow> ('d, 'z) World_scheme" where
  "update_document r f w = w\<lparr>documentHeap := (documentHeap w)(r := f (documentHeap w r))\<rparr>"

definition DocumentData_begin :: "DocumentRef \<Rightarrow> ('d, 'z) World_scheme \<Rightarrow> ('d, 'z) World_scheme" where
  "DocumentData_begin r w =
     (let d = dd_document (documentHeap w r);
          w1 = emit (Vtx (V_document d)) w
      in case fresh w1 of (i, w2) \<Rightarrow> emit (Vtx (V_event i begin_event (document_id d))) w2)"

definition DocumentData_addRange :: "DocumentRef \<Rightarrow> RangeVertex \<Rightarrow> ('d, 'z) World_scheme \<Rightarrow> ('d, 'z) World_scheme" where
  "DocumentData_addRange r rng w =
     update_document r (\<lambda>d. d\<lparr>dd_ranges := dd_ranges d @ [rng]\<rparr>) (emit (Vtx (V_range rng)) w)"

definition DocumentData_addDiagnostics :: "DocumentRef \<Rightarrow> Diagnostic list \<Rightarrow> ('d, 'z) World_scheme \<Rightarrow> ('d, 'z) World_scheme" where
  "DocumentData_addDiagnostics r ds w = update_document r (\<lambda>d. d\<lparr>dd_diagnostics := Some ds\<rparr>) w"

definition DocumentData_addFoldingRanges :: "DocumentRef \<Rightarrow> FoldingRange list \<Rightarrow> ('d, 'z) World_scheme \<Rightarrow> ('d, 'z) World_scheme" where
  "DocumentData_addFoldingRanges r fs w = update_document r (\<lambda>d. d\<lparr>dd_foldingRanges := Some fs\<rparr>) w"

definition DocumentData_addDocumentSymbols :: "DocumentRef \<Rightarrow> RangeBasedDocumentSymbol list
    \<Rightarrow> ('d, 'z) World_scheme \<Rightarrow> ('d, 'z) World_scheme" where
  "DocumentData_addDocumentSymbols r ss w = update_document r (\<lambda>d. d\<lparr>dd_documentSymbols := Some ss\<rparr>) w"

text \<open>
  \<open>DocumentData.end\<close>. The guard of the contains edge is \<open>this.ranges.length >= 0\<close>, which
  holds for every list: the edge is emitted also for no ranges.
\<close>

definition DocumentData_end :: "DocumentRef \<Rightarrow> ('d, 'z) World_scheme \<Rightarrow> ('d, 'z) World_scheme" where
  "DocumentData_end r w =
     (let dd = documentHeap w r;
          d = document_id (dd_document dd);
          w1 = (if length (dd_ranges dd) \<ge> 0
                then emit_edge contains_edge d (map range_id (dd_ranges dd)) None None w else w);
          w2 = (case dd_diagnostics dd of None \<Rightarrow> w1
                | Some ds \<Rightarrow> (case fresh w1 of (i, wa) \<Rightarrow>
                    emit_edge diagnostic_edge d [i] None None (emit (Vtx (V_diagnosticResult i ds)) wa)));
          w3 = (case dd_foldingRanges dd of None \<Rightarrow> w2
                | Some fs \<Rightarrow> (case fresh w2 of (i, wa) \<Rightarrow>
                    emit_edge foldingRange_edge d [i] None None (emit (Vtx (V_foldingRangeResult i fs)) wa)));
          w4 = (case dd_documentSymbols dd of None \<Rightarrow> w3
                | Some ss \<Rightarrow> (case fresh w3 of (i, wa) \<Rightarrow>
                    emit_edge documentSymbol_edge d [i] None None
                      (emit (Vtx (V_documentSymbolResult i ss)) wa)))
      in case fresh w4 of (i, w5) \<Rightarrow> emit (Vtx (V_event i end_event d)) w5)"

subsection \<open>SymbolData (the abstract base class)\<close>

definition update_symbol :: "SymbolRef \<Rightarrow> ('d SymbolData \<Rightarrow> 'd SymbolData) \<Rightarrow> ('d, 'z) World_scheme \<Rightarrow> ('d, 'z) World_scheme" where
  "update_symbol h f w = w\<lparr>symbolHeap := (symbolHeap w)(h := f (symbolHeap w h))\<rparr>"

text \<open>
  The constructor: \<open>this.resultSet = this.vertex.resultSet()\<close> takes the id of the result
  set; the vertex is emitted by \<open>begin\<close>. The subclasses' constructors only set their
  fields (\<open>scope\<close> and the variant), MethodSymbolData turning an empty \<open>bases\<close> into undefined.
\<close>

fun normalize_variant :: "Variant \<Rightarrow> Variant" where
  "normalize_variant (Method sf (Some [])) = Method sf None"
| "normalize_variant v = v"

definition new_SymbolData :: "string \<Rightarrow> Node option \<Rightarrow> Variant \<Rightarrow> ('d, 'z) World_scheme \<Rightarrow> SymbolRef \<times> ('d, 'z) World_scheme" where
  "new_SymbolData sid scope v w =
     (case fresh w of (i, w1) \<Rightarrow>
        (symbolCount w1,
         w1\<lparr>symbolHeap := (symbolHeap w1)(symbolCount w1 :=
               \<lparr>sd_id = sid, sd_resultSet = i, sd_declarationInfo = info_undefined,
                sd_definitionResult = None, sd_referenceResult = None,
                sd_partitions = partitions_undefined, sd_scope = scope,
                sd_variant = normalize_variant v\<rparr>),
            symbolCount := Suc (symbolCount w1)\<rparr>))"

definition SymbolData_begin :: "SymbolRef \<Rightarrow> ('d, 'z) World_scheme \<Rightarrow> ('d, 'z) World_scheme" where
  "SymbolData_begin h w = emit (Vtx (V_resultSet (sd_resultSet (symbolHeap w h)))) w"

definition SymbolData_recordDefinitionInfo :: "'d \<Rightarrow> 'd SymbolData \<Rightarrow> 'd SymbolData" where
  "SymbolData_recordDefinitionInfo info sd =
     (case sd_declarationInfo sd of
        info_undefined \<Rightarrow> sd\<lparr>sd_declarationInfo := info_single info\<rparr>
      | info_array xs \<Rightarrow> sd\<lparr>sd_declarationInfo := info_array (xs @ [info])\<rparr>
      | info_single x \<Rightarrow> sd\<lparr>sd_declarationInfo := info_array ([x] @ [info])\<rparr>)"

text \<open>
  \<open>tss.DefinitionInfo\<close> and its \<open>equals\<close> are not in the sources: the type is the parameter
  \<open>'d\<close> and the comparison the parameter \<open>equals\<close>. The loop over the array returns at the
  first equal item.
\<close>

fun array_has :: "('d \<Rightarrow> 'd \<Rightarrow> bool) \<Rightarrow> 'd list \<Rightarrow> 'd \<Rightarrow> bool" where
  "array_has equals [] info = False"
| "array_has equals (item # items) info =
     (if equals item info then True else array_has equals items info)"

definition SymbolData_hasDefinitionInfo :: "('d \<Rightarrow> 'd \<Rightarrow> bool) \<Rightarrow> 'd \<Rightarrow> 'd SymbolData \<Rightarrow> bool" where
  "SymbolData_hasDefinitionInfo equals info sd =
     (case sd_declarationInfo sd of
        info_undefined \<Rightarrow> False
      | info_array xs \<Rightarrow> array_has equals xs info
      | info_single x \<Rightarrow> equals x info)"

text \<open>
  The calls through a reference. UnionOrIntersectionSymbolData overrides
  \<open>recordDefinitionInfo\<close> with an empty body; no class overrides \<open>hasDefinitionInfo\<close>.
\<close>

definition recordDefinitionInfo :: "SymbolRef \<Rightarrow> 'd \<Rightarrow> ('d, 'z) World_scheme \<Rightarrow> ('d, 'z) World_scheme" where
  "recordDefinitionInfo h info w =
     (case sd_variant (symbolHeap w h) of
        UnionOrIntersection sf elements \<Rightarrow> w
      | _ \<Rightarrow> update_symbol h (SymbolData_recordDefinitionInfo info) w)"

definition hasDefinitionInfo :: "('d \<Rightarrow> 'd \<Rightarrow> bool) \<Rightarrow> SymbolRef \<Rightarrow> 'd \<Rightarrow> ('d, 'z) World_scheme \<Rightarrow> bool" where
  "hasDefinitionInfo equals h info w = SymbolData_hasDefinitionInfo equals info (symbolHeap w h)"

definition addHover :: "SymbolRef \<Rightarrow> Hover \<Rightarrow> ('d, 'z) World_scheme \<Rightarrow> ('d, 'z) World_scheme" where
  "addHover h hover w =
     (case fresh w of (i, w1) \<Rightarrow>
        emit_edge hover_edge (sd_resultSet (symbolHeap w h)) [i] None None
          (emit (Vtx (V_hoverResult i hover)) w1))"

definition addMoniker :: "SymbolRef \<Rightarrow> MonikerKind \<Rightarrow> string \<Rightarrow> ('d, 'z) World_scheme \<Rightarrow> ('d, 'z) World_scheme" where
  "addMoniker h kind identifier w =
     (case fresh w of (i, w1) \<Rightarrow>
        emit_edge moniker_edge (sd_resultSet (symbolHeap w h)) [i] None None
          (emit (Vtx (V_moniker i kind ''tsc'' identifier)) w1))"

subsection \<open>SymbolDataPartition\<close>

text \<open>The argument of \<open>addReference\<close>: \<open>Range | ReferenceResult\<close>, told apart by the label.\<close>

datatype RangeOrResult = a_range RangeVertex | a_referenceResult Id

fun label :: "RangeOrResult \<Rightarrow> string" where
  "label (a_range r) = ''range''"
| "label (a_referenceResult i) = ''referenceResult''"

definition new_SymbolDataPartition :: "SymbolRef \<Rightarrow> Document \<Rightarrow> SymbolDataPartition" where
  "new_SymbolDataPartition h d =
     \<lparr>sp_symbolData = h, sp_document = d, sp_definitionRanges = None,
      sp_referenceRanges = None, sp_referenceResults = None\<rparr>"

text \<open>\<open>begin\<close>: "Do nothing."\<close>

definition SymbolDataPartition_begin :: "SymbolDataPartition \<Rightarrow> SymbolDataPartition" where
  "SymbolDataPartition_begin p = p"

definition SymbolDataPartition_addReference :: "RangeOrResult \<Rightarrow> ItemEdgeProperties option
    \<Rightarrow> SymbolDataPartition \<Rightarrow> SymbolDataPartition" where
  "SymbolDataPartition_addReference v property p =
     (case v of
        a_range r \<Rightarrow>
          (case property of
             Some prop \<Rightarrow>
               (let m = (case sp_referenceRanges p of None \<Rightarrow> [] | Some m \<Rightarrow> m);
                    values = (case map_of m prop of None \<Rightarrow> [] | Some vs \<Rightarrow> vs)
                in p\<lparr>sp_referenceRanges := Some (AList.update prop (values @ [r]) m)\<rparr>)
           | None \<Rightarrow> p)
      | a_referenceResult rr \<Rightarrow>
          p\<lparr>sp_referenceResults :=
              Some ((case sp_referenceResults p of None \<Rightarrow> [] | Some rs \<Rightarrow> rs) @ [rr])\<rparr>)"

definition SymbolDataPartition_addDefinition :: "RangeVertex \<Rightarrow> bool
    \<Rightarrow> SymbolDataPartition \<Rightarrow> SymbolDataPartition" where
  "SymbolDataPartition_addDefinition v recordAsReference p =
     (let p1 = p\<lparr>sp_definitionRanges :=
                  Some ((case sp_definitionRanges p of None \<Rightarrow> [] | Some ds \<Rightarrow> ds) @ [v])\<rparr>
      in if recordAsReference
         then SymbolDataPartition_addReference (a_range v) (Some definitions) p1
         else p1)"

definition SymbolDataPartition_findDefinition :: "lsp_Range \<Rightarrow> SymbolDataPartition
    \<Rightarrow> RangeVertex option" where
  "SymbolDataPartition_findDefinition rng p =
     (case sp_definitionRanges p of
        None \<Rightarrow> None
      | Some ds \<Rightarrow>
          find (\<lambda>d. line (range_start d) = line (range_start rng)
                   \<and> character (range_start d) = character (range_start rng)
                   \<and> line (range_end d) = line (range_end rng)
                   \<and> character (range_end d) = character (range_end rng)) ds)"

subsection \<open>The result vertices of a symbol\<close>

text \<open>\<open>getOrCreateDefinitionResult\<close> is StandardSymbolData's; no subclass overrides it.\<close>

definition getOrCreateDefinitionResult :: "SymbolRef \<Rightarrow> ('d, 'z) World_scheme \<Rightarrow> Id \<times> ('d, 'z) World_scheme" where
  "getOrCreateDefinitionResult h w =
     (case sd_definitionResult (symbolHeap w h) of
        Some i \<Rightarrow> (i, w)
      | None \<Rightarrow>
          (case fresh w of (i, w1) \<Rightarrow>
             (let w2 = update_symbol h (\<lambda>s. s\<lparr>sd_definitionResult := Some i\<rparr>) w1;
                  w3 = emit (Vtx (V_definitionResult i)) w2
              in (i, emit_edge definition_edge (sd_resultSet (symbolHeap w3 h)) [i] None None w3))))"

definition StandardSymbolData_getOrCreateReferenceResult :: "SymbolRef \<Rightarrow> ('d, 'z) World_scheme \<Rightarrow> Id \<times> ('d, 'z) World_scheme" where
  "StandardSymbolData_getOrCreateReferenceResult h w =
     (case sd_referenceResult (symbolHeap w h) of
        Some i \<Rightarrow> (i, w)
      | None \<Rightarrow>
          (case fresh w of (i, w1) \<Rightarrow>
             (let w2 = update_symbol h (\<lambda>s. s\<lparr>sd_referenceResult := Some i\<rparr>) w1;
                  w3 = emit (Vtx (V_referenceResult i)) w2
              in (i, emit_edge references_edge (sd_resultSet (symbolHeap w3 h)) [i] None None w3))))"

text \<open>AliasedSymbolData overrides it: \<open>throw new Error(`Shouldn't be called`)\<close>.\<close>

definition getOrCreateReferenceResult :: "SymbolRef \<Rightarrow> ('d, 'z) World_scheme \<Rightarrow> Id Outcome \<times> ('d, 'z) World_scheme" where
  "getOrCreateReferenceResult h w =
     (case sd_variant (symbolHeap w h) of
        Aliased a rename \<Rightarrow> (Throw ShouldntBeCalled, w)
      | _ \<Rightarrow> (case StandardSymbolData_getOrCreateReferenceResult h w of (i, w1) \<Rightarrow> (Return i, w1)))"

text \<open>
  \<open>SymbolDataPartition.end\<close>: the item edge of the definitions, one item edge for each key of
  \<open>referenceRanges\<close> in the order of the Map, the item edge of the forwarded results.
\<close>

definition emit_reference_items :: "Id \<Rightarrow> Id \<Rightarrow> (ItemEdgeProperties \<times> RangeVertex list) list
    \<Rightarrow> ItemEdgeProperties list \<Rightarrow> ('d, 'z) World_scheme \<Rightarrow> ('d, 'z) World_scheme" where
  "emit_reference_items referenceResult doc m keys w =
     fold (\<lambda>property w'. case map_of m property of
                            None \<Rightarrow> w'
                          | Some values \<Rightarrow> emit_edge item_edge referenceResult (map range_id values)
                                             (Some doc) (Some property) w') keys w"

definition SymbolDataPartition_end :: "SymbolDataPartition \<Rightarrow> ('d, 'z) World_scheme \<Rightarrow> unit Outcome \<times> ('d, 'z) World_scheme" where
  "SymbolDataPartition_end p =
     seq (case sp_definitionRanges p of
            None \<Rightarrow> ret ()
          | Some ds \<Rightarrow> (\<lambda>w. case getOrCreateDefinitionResult (sp_symbolData p) w of
                             (definitionResult, w1) \<Rightarrow>
                               (Return (), emit_edge item_edge definitionResult (map range_id ds)
                                             (Some (document_id (sp_document p))) None w1)))
     (\<lambda>u. seq (case sp_referenceRanges p of
                 None \<Rightarrow> ret ()
               | Some m \<Rightarrow> seq (getOrCreateReferenceResult (sp_symbolData p))
                             (\<lambda>referenceResult.
                                lift (emit_reference_items referenceResult
                                        (document_id (sp_document p)) m (map fst m))))
     (\<lambda>u. case sp_referenceResults p of
             None \<Rightarrow> ret ()
           | Some rs \<Rightarrow> seq (getOrCreateReferenceResult (sp_symbolData p))
                         (\<lambda>referenceResult.
                            lift (emit_edge item_edge referenceResult rs
                                    (Some (document_id (sp_document p))) None))))"

subsection \<open>DataManager: documents and the life cycle map\<close>

definition getDocumentData :: "string \<Rightarrow> ('d, 'z) World_scheme \<Rightarrow> DocumentRef option Outcome \<times> ('d, 'z) World_scheme" where
  "getDocumentData file w =
     (case map_of (documentDatas w) file of
        Some None \<Rightarrow> (Throw (AlreadyManagedDocument file), w)
      | Some (Some r) \<Rightarrow> (Return (Some r), w)
      | None \<Rightarrow> (Return None, w))"

definition manageLifeCycle :: "Node \<Rightarrow> SymbolRef \<Rightarrow> ('d, 'z) World_scheme \<Rightarrow> ('d, 'z) World_scheme" where
  "manageLifeCycle node h w =
     (let datas = (case map_of (clearOnNode w) node of None \<Rightarrow> [] | Some ds \<Rightarrow> ds)
      in w\<lparr>clearOnNode := AList.update node (datas @ [h]) (clearOnNode w)\<rparr>)"

subsection \<open>StandardSymbolData\<close>

definition set_partition :: "SymbolRef \<Rightarrow> string \<Rightarrow> SymbolDataPartition option \<Rightarrow> ('d, 'z) World_scheme \<Rightarrow> ('d, 'z) World_scheme" where
  "set_partition h file slot w =
     update_symbol h (\<lambda>s. case sd_partitions s of
                             partitions_map m \<Rightarrow> s\<lparr>sd_partitions := partitions_map (AList.update file slot m)\<rparr>
                           | _ \<Rightarrow> s) w"

text \<open>
  \<open>getOrCreatePartition\<close> returns the partition of the file. The new partition is
  registered with \<open>this.context.manageLifeCycle(sourceFile, this)\<close>: the node is the source
  file that was passed in.
\<close>

definition getOrCreatePartition :: "SymbolRef \<Rightarrow> SourceFile \<Rightarrow> ('d, 'z) World_scheme
    \<Rightarrow> SymbolDataPartition Outcome \<times> ('d, 'z) World_scheme" where
  "getOrCreatePartition h sourceFile w =
     (let file = fileName sourceFile in
      case sd_partitions (symbolHeap w h) of
        partitions_null \<Rightarrow> (Throw (PartitionsAlreadyCleared (sd_id (symbolHeap w h))), w)
      | ps \<Rightarrow>
          (let w1 = (if ps = partitions_undefined
                     then update_symbol h (\<lambda>s. s\<lparr>sd_partitions := partitions_map []\<rparr>) w else w);
               m = (case ps of partitions_map m \<Rightarrow> m | _ \<Rightarrow> [])
           in case map_of m file of
                Some None \<Rightarrow> (Throw (PartitionForFileCleared file), w1)
              | Some (Some p) \<Rightarrow> (Return p, w1)
              | None \<Rightarrow>
                  (case getDocumentData file w1 of
                     (Throw e, w2) \<Rightarrow> (Throw e, w2)
                   | (Return None, w2) \<Rightarrow> (Throw (NoDocumentData file), w2)
                   | (Return (Some r), w2) \<Rightarrow>
                       (let p = new_SymbolDataPartition h (dd_document (documentHeap w2 r));
                            w3 = manageLifeCycle (SourceFileNode sourceFile) h w2;
                            p1 = SymbolDataPartition_begin p
                        in (Return p1, set_partition h file (Some p1) w3)))))"

text \<open>\<open>symbolData.getOrCreatePartition(sourceFile).method(...)\<close>: the method changes the
  partition in its slot.\<close>

definition on_partition :: "SymbolRef \<Rightarrow> SourceFile \<Rightarrow> (SymbolDataPartition \<Rightarrow> SymbolDataPartition)
    \<Rightarrow> ('d, 'z) World_scheme \<Rightarrow> unit Outcome \<times> ('d, 'z) World_scheme" where
  "on_partition h sourceFile method =
     seq (getOrCreatePartition h sourceFile)
       (\<lambda>p. lift (set_partition h (fileName sourceFile) (Some (method p))))"

definition emit_next_if_range :: "SymbolRef \<Rightarrow> RangeOrResult \<Rightarrow> ('d, 'z) World_scheme \<Rightarrow> ('d, 'z) World_scheme" where
  "emit_next_if_range h reference w =
     (case reference of
        a_range r \<Rightarrow> emit_edge next_edge (range_id r) [sd_resultSet (symbolHeap w h)] None None w
      | a_referenceResult i \<Rightarrow> w)"

definition StandardSymbolData_addDefinition :: "SymbolRef \<Rightarrow> SourceFile \<Rightarrow> RangeVertex \<Rightarrow> bool
    \<Rightarrow> ('d, 'z) World_scheme \<Rightarrow> unit Outcome \<times> ('d, 'z) World_scheme" where
  "StandardSymbolData_addDefinition h sourceFile definition recordAsReference w =
     on_partition h sourceFile (SymbolDataPartition_addDefinition definition recordAsReference)
       (emit_edge next_edge (range_id definition) [sd_resultSet (symbolHeap w h)] None None w)"

definition StandardSymbolData_addReference :: "SymbolRef \<Rightarrow> SourceFile \<Rightarrow> RangeOrResult
    \<Rightarrow> ItemEdgeProperties option \<Rightarrow> ('d, 'z) World_scheme \<Rightarrow> unit Outcome \<times> ('d, 'z) World_scheme" where
  "StandardSymbolData_addReference h sourceFile reference property w =
     on_partition h sourceFile (SymbolDataPartition_addReference reference property)
       (emit_next_if_range h reference w)"

definition StandardSymbolData_findDefinition :: "SymbolRef \<Rightarrow> SourceFile \<Rightarrow> lsp_Range
    \<Rightarrow> ('d, 'z) World_scheme \<Rightarrow> RangeVertex option Outcome \<times> ('d, 'z) World_scheme" where
  "StandardSymbolData_findDefinition h sourceFile rng w =
     (case sd_partitions (symbolHeap w h) of
        partitions_undefined \<Rightarrow> (Return None, w)
      | partitions_null \<Rightarrow> (Throw SymbolDataAlreadyCleared, w)
      | partitions_map m \<Rightarrow>
          (case map_of m (fileName sourceFile) of
             Some None \<Rightarrow> (Throw (PartitionForFileCleared (fileName sourceFile)), w)
           | None \<Rightarrow> (Return None, w)
           | Some (Some p) \<Rightarrow> (Return (SymbolDataPartition_findDefinition rng p), w)))"

text \<open>
  \<open>nodeProcessed\<close>; no subclass overrides it. \<open>node === this.scope\<close> compares references; the
  size of a Map is the number of its entries, and \<open>values().next().value\<close> its first value.
\<close>

definition nodeProcessed :: "SymbolRef \<Rightarrow> Node \<Rightarrow> ('d, 'z) World_scheme \<Rightarrow> bool Outcome \<times> ('d, 'z) World_scheme" where
  "nodeProcessed h node w =
     (case sd_partitions (symbolHeap w h) of
        partitions_undefined \<Rightarrow> (Return True, w)
      | partitions_null \<Rightarrow> (Throw (PartitionsAlreadyCleared (sd_id (symbolHeap w h))), w)
      | partitions_map m \<Rightarrow>
          if Some node = sd_scope (symbolHeap w h) then
            (if length m \<noteq> 1 then (Throw LocalSymbolMoreThanOnePartition, w)
             else seq (case snd (hd m) of
                         None \<Rightarrow> ret ()
                       | Some parition \<Rightarrow> SymbolDataPartition_end parition)
                    (\<lambda>u w1. (Return True,
                              update_symbol h (\<lambda>s. s\<lparr>sd_partitions := partitions_null\<rparr>) w1)) w)
          else (case node of
                  SourceFileNode f \<Rightarrow>
                    (case map_of m (fileName f) of
                       Some None \<Rightarrow> (Throw (PartitionForFileCleared (fileName f)), w)
                     | None \<Rightarrow> (Throw (NoPartitionManaged (fileName f)), w)
                     | Some (Some p) \<Rightarrow>
                         seq (SymbolDataPartition_end p)
                           (\<lambda>u w1. (Return False, set_partition h (fileName f) None w1)) w)
                | OtherNode n \<Rightarrow> (Throw NeitherSourceFileNorScope, w)))"

text \<open>\<open>StandardSymbolData.end\<close>: every live partition is ended and its slot set to null.\<close>

definition StandardSymbolData_end :: "SymbolRef \<Rightarrow> ('d, 'z) World_scheme \<Rightarrow> unit Outcome \<times> ('d, 'z) World_scheme" where
  "StandardSymbolData_end h w =
     (case sd_partitions (symbolHeap w h) of
        partitions_undefined \<Rightarrow> (Return (), w)
      | partitions_null \<Rightarrow> (Throw (PartitionsAlreadyCleared (sd_id (symbolHeap w h))), w)
      | partitions_map m \<Rightarrow>
          forEach m (\<lambda>entry. case snd entry of
                               None \<Rightarrow> ret ()
                             | Some p \<Rightarrow> seq (SymbolDataPartition_end p)
                                          (\<lambda>u. lift (set_partition h (fst entry) None))) w)"

subsection \<open>The subclasses: AliasedSymbolData, MethodSymbolData, UnionOrIntersectionSymbolData\<close>

text \<open>
  A call through a SymbolData reference runs the method of the object's class; the
  \<open>super\<close> calls of the subclasses are the StandardSymbolData functions above.
  \<open>call_begin\<close> is the call \<open>symbolData.begin()\<close>.
\<close>

definition call_begin :: "SymbolRef \<Rightarrow> ('d, 'z) World_scheme \<Rightarrow> unit Outcome \<times> ('d, 'z) World_scheme" where
  "call_begin h w =
     (case sd_variant (symbolHeap w h) of
        Standard \<Rightarrow> (Return (), SymbolData_begin h w)
      | Aliased aliased rename \<Rightarrow>
          (let w1 = SymbolData_begin h w
           in (Return (), emit_edge next_edge (sd_resultSet (symbolHeap w1 h))
                            [sd_resultSet (symbolHeap w1 aliased)] None None w1))
      | Method sourceFile bases \<Rightarrow>
          seq (case bases of
                 None \<Rightarrow> ret ()
               | Some bs \<Rightarrow>
                   forEach bs (\<lambda>base.
                     seq (getOrCreateReferenceResult base)
                       (\<lambda>rr. case sourceFile of
                                None \<Rightarrow> throw TypeError
                              | Some f \<Rightarrow> StandardSymbolData_addReference h f (a_referenceResult rr) None)))
            (\<lambda>u. lift (update_symbol h (\<lambda>s. s\<lparr>sd_variant := Method None bases\<rparr>)))
            (SymbolData_begin h w)
      | UnionOrIntersection sourceFile elements \<Rightarrow>
          seq (forEach elements (\<lambda>element.
                 seq (getOrCreateReferenceResult element)
                   (\<lambda>rr. case sourceFile of
                            None \<Rightarrow> throw TypeError
                          | Some f \<Rightarrow> StandardSymbolData_addReference h f (a_referenceResult rr) None)))
            (\<lambda>u. lift (update_symbol h (\<lambda>s. s\<lparr>sd_variant := UnionOrIntersection None elements\<rparr>)))
            (SymbolData_begin h w))"

definition MethodSymbolData_addDefinition :: "SymbolRef \<Rightarrow> SymbolRef list option \<Rightarrow> SourceFile
    \<Rightarrow> RangeVertex \<Rightarrow> ('d, 'z) World_scheme \<Rightarrow> unit Outcome \<times> ('d, 'z) World_scheme" where
  "MethodSymbolData_addDefinition h bases sourceFile definition =
     seq (StandardSymbolData_addDefinition h sourceFile definition (bases = None))
       (\<lambda>u. case bases of
               None \<Rightarrow> ret ()
             | Some bs \<Rightarrow>
                 forEach bs (\<lambda>base. on_partition base sourceFile
                   (SymbolDataPartition_addReference (a_range definition) (Some definitions))))"

definition addDefinition :: "SymbolRef \<Rightarrow> SourceFile \<Rightarrow> RangeVertex
    \<Rightarrow> ('d, 'z) World_scheme \<Rightarrow> unit Outcome \<times> ('d, 'z) World_scheme" where
  "addDefinition h sourceFile definition w =
     (case sd_variant (symbolHeap w h) of
        Standard \<Rightarrow> StandardSymbolData_addDefinition h sourceFile definition True w
      | Aliased aliased rename \<Rightarrow>
          (if rename then StandardSymbolData_addDefinition h sourceFile definition False w
           else on_partition aliased sourceFile
                  (SymbolDataPartition_addReference (a_range definition) (Some references))
                  (emit_edge next_edge (range_id definition) [sd_resultSet (symbolHeap w h)]
                     None None w))
      | Method sf bases \<Rightarrow> MethodSymbolData_addDefinition h bases sourceFile definition w
      | UnionOrIntersection sf elements \<Rightarrow> (Return (), w))"

definition addReference :: "SymbolRef \<Rightarrow> SourceFile \<Rightarrow> RangeOrResult \<Rightarrow> ItemEdgeProperties option
    \<Rightarrow> ('d, 'z) World_scheme \<Rightarrow> unit Outcome \<times> ('d, 'z) World_scheme" where
  "addReference h sourceFile reference property w =
     (case sd_variant (symbolHeap w h) of
        Standard \<Rightarrow> StandardSymbolData_addReference h sourceFile reference property w
      | Aliased aliased rename \<Rightarrow>
          on_partition aliased sourceFile (SymbolDataPartition_addReference reference property)
            (emit_next_if_range h reference w)
      | Method sf bases \<Rightarrow>
          (case bases of
             Some bs \<Rightarrow>
               forEach bs (\<lambda>base. on_partition base sourceFile
                   (SymbolDataPartition_addReference reference property))
                 (emit_next_if_range h reference w)
           | None \<Rightarrow> StandardSymbolData_addReference h sourceFile reference property w)
      | UnionOrIntersection sf elements \<Rightarrow>
          forEach elements (\<lambda>element. on_partition element sourceFile
              (SymbolDataPartition_addReference reference property))
            (emit_next_if_range h reference w))"

subsection \<open>DataManager\<close>

definition new_DataManager :: "Project \<Rightarrow> ('d, 'z) World_scheme \<Rightarrow> ('d, 'z) World_scheme" where
  "new_DataManager project w =
     (let w1 = ProjectData_begin
                 (w\<lparr>projectData := \<lparr>pd_project = project, pd_documents = [], pd_diagnostics = []\<rparr>\<rparr>)
      in w1\<lparr>documentDatas := [], symbolDatas := [], clearOnNode := []\<rparr>)"

definition new_DocumentData :: "Document \<Rightarrow> string option \<Rightarrow> bool \<Rightarrow> ('d, 'z) World_scheme \<Rightarrow> DocumentRef \<times> ('d, 'z) World_scheme" where
  "new_DocumentData document monikerPath externalLibrary w =
     (documentCount w,
      w\<lparr>documentHeap := (documentHeap w)(documentCount w :=
           \<lparr>dd_document = document, dd_monikerPath = monikerPath,
            dd_externalLibrary = externalLibrary, dd_ranges = [], dd_diagnostics = None,
            dd_foldingRanges = None, dd_documentSymbols = None\<rparr>),
        documentCount := Suc (documentCount w)\<rparr>)"

definition getOrCreateDocumentData :: "string \<Rightarrow> Document \<Rightarrow> string option \<Rightarrow> bool
    \<Rightarrow> ('d, 'z) World_scheme \<Rightarrow> DocumentRef Outcome \<times> ('d, 'z) World_scheme" where
  "getOrCreateDocumentData file document monikerPath externalLibrary w =
     (case getDocumentData file w of
        (Throw e, w1) \<Rightarrow> (Throw e, w1)
      | (Return (Some r), w1) \<Rightarrow> (Return r, w1)
      | (Return None, w1) \<Rightarrow>
          (case new_DocumentData document monikerPath externalLibrary w1 of
             (r, w2) \<Rightarrow>
               (let w3 = w2\<lparr>documentDatas := AList.update file (Some r) (documentDatas w2)\<rparr>;
                    w4 = DocumentData_begin r w3
                in (Return r, ProjectData_addDocument document w4))))"

definition documemntProcessed :: "string \<Rightarrow> ('d, 'z) World_scheme \<Rightarrow> unit Outcome \<times> ('d, 'z) World_scheme" where
  "documemntProcessed file w =
     (case getDocumentData file w of
        (Throw e, w1) \<Rightarrow> (Throw e, w1)
      | (Return None, w1) \<Rightarrow> (Throw (NoDocumentDataForFile file), w1)
      | (Return (Some r), w1) \<Rightarrow>
          (let w2 = DocumentData_end r w1
           in (Return (), w2\<lparr>documentDatas := AList.update file None (documentDatas w2)\<rparr>)))"

definition getSymbolData :: "string \<Rightarrow> ('d, 'z) World_scheme \<Rightarrow> SymbolRef option Outcome \<times> ('d, 'z) World_scheme" where
  "getSymbolData symbolId w =
     (case map_of (symbolDatas w) symbolId of
        Some None \<Rightarrow> (Throw (AlreadyManagedSymbol symbolId), w)
      | Some (Some h) \<Rightarrow> (Return (Some h), w)
      | None \<Rightarrow> (Return None, w))"

text \<open>\<open>create\<close> is the caller's function that constructs the SymbolData.\<close>

definition getOrCreateSymbolData :: "string \<Rightarrow> (('d, 'z) World_scheme \<Rightarrow> SymbolRef Outcome \<times> ('d, 'z) World_scheme)
    \<Rightarrow> ('d, 'z) World_scheme \<Rightarrow> SymbolRef Outcome \<times> ('d, 'z) World_scheme" where
  "getOrCreateSymbolData symbolId create =
     seq (getSymbolData symbolId)
       (\<lambda>result. case result of
          Some h \<Rightarrow> ret h
        | None \<Rightarrow>
            seq create
              (\<lambda>h. seq (lift (\<lambda>w. w\<lparr>symbolDatas :=
                                     AList.update (sd_id (symbolHeap w h)) (Some h) (symbolDatas w)\<rparr>))
              (\<lambda>u. seq (call_begin h)
              (\<lambda>u. ret h))))"

text \<open>
  \<open>DataManager.nodeProcessed\<close>: every SymbolData registered for the node is asked; one that
  answers true leaves \<open>symbolDatas\<close>; the node leaves \<open>clearOnNode\<close>.
\<close>

definition DataManager_nodeProcessed :: "Node \<Rightarrow> ('d, 'z) World_scheme \<Rightarrow> unit Outcome \<times> ('d, 'z) World_scheme" where
  "DataManager_nodeProcessed node w =
     (case map_of (clearOnNode w) node of
        None \<Rightarrow> (Return (), w)
      | Some datas \<Rightarrow>
          seq (forEach datas (\<lambda>symbolData.
                 seq (nodeProcessed symbolData node)
                   (\<lambda>cleared. lift (\<lambda>w1. if cleared
                       then w1\<lparr>symbolDatas := AList.delete (sd_id (symbolHeap w1 symbolData)) (symbolDatas w1)\<rparr>
                       else w1))))
            (\<lambda>u. lift (\<lambda>w1. w1\<lparr>clearOnNode := AList.delete node (clearOnNode w1)\<rparr>)) w)"

text \<open>
  \<open>projectProcessed\<close>: the symbols still live, then the documents still live, then the project.
\<close>

definition projectProcessed :: "('d, 'z) World_scheme \<Rightarrow> unit Outcome \<times> ('d, 'z) World_scheme" where
  "projectProcessed w =
     seq (forEach (symbolDatas w) (\<lambda>entry. case snd entry of
            None \<Rightarrow> ret ()
          | Some h \<Rightarrow> seq (StandardSymbolData_end h)
                       (\<lambda>u. lift (\<lambda>w1. w1\<lparr>symbolDatas := AList.update (fst entry) None (symbolDatas w1)\<rparr>))))
     (\<lambda>u. seq (\<lambda>w1. forEach (documentDatas w1) (\<lambda>entry. case snd entry of
                  None \<Rightarrow> ret ()
                | Some r \<Rightarrow> lift (DocumentData_end r)) w1)
     (\<lambda>u. lift ProjectData_end)) w"

subsection \<open>Sequences of calls between two calls of \<open>getOrCreateDocumentData\<close>\<close>

text \<open>
  The map \<open>documentDatas\<close> is assigned at three places of the source: by the constructor,
  by \<open>getOrCreateDocumentData\<close> (the entry of its file name, to the new DocumentData) and by
  \<open>documemntProcessed\<close> (the entry of its file name, to null). A step between two calls of
  \<open>getOrCreateDocumentData\<close> is a call of one of these two methods, with any arguments and
  whether it returns or throws, or a step of another method.
\<close>

datatype 'w DataManagerCall =
    GetOrCreateDocumentData string Document "string option" bool
  | DocumemntProcessed string
  | OtherCall "'w \<Rightarrow> 'w"

fun run_call :: "('d, 'z) World_scheme DataManagerCall \<Rightarrow> ('d, 'z) World_scheme \<Rightarrow> ('d, 'z) World_scheme" where
  "run_call (GetOrCreateDocumentData file document monikerPath externalLibrary) w =
     snd (getOrCreateDocumentData file document monikerPath externalLibrary w)"
| "run_call (DocumemntProcessed file) w = snd (documemntProcessed file w)"
| "run_call (OtherCall f) w = f w"

definition run_calls :: "('d, 'z) World_scheme DataManagerCall list \<Rightarrow> ('d, 'z) World_scheme \<Rightarrow> ('d, 'z) World_scheme" where
  "run_calls calls w = fold run_call calls w"

text \<open>The steps of other methods in a list of calls leave \<open>documentDatas\<close> as it is.\<close>

definition others_keep_documentDatas :: "('d, 'z) World_scheme DataManagerCall list \<Rightarrow> bool" where
  "others_keep_documentDatas calls =
     (\<forall>f. OtherCall f \<in> set calls \<longrightarrow> (\<forall>w. documentDatas (f w) = documentDatas w))"

subsection \<open>The world before the run\<close>

text \<open>
  Nothing emitted, no object allocated, the maps empty. The cells of the heaps that are
  not allocated yet hold a blank object; an allocation overwrites the cell.
\<close>

definition blank_SymbolData :: "'d SymbolData" where
  "blank_SymbolData =
     \<lparr>sd_id = [], sd_resultSet = 0, sd_declarationInfo = info_undefined,
      sd_definitionResult = None, sd_referenceResult = None,
      sd_partitions = partitions_undefined, sd_scope = None, sd_variant = Standard\<rparr>"

definition blank_DocumentData :: DocumentData where
  "blank_DocumentData =
     \<lparr>dd_document = \<lparr>document_id = 0, document_uri = []\<rparr>, dd_monikerPath = None,
      dd_externalLibrary = False, dd_ranges = [], dd_diagnostics = None,
      dd_foldingRanges = None, dd_documentSymbols = None\<rparr>"

definition blank_World :: "'d World" where
  "blank_World =
     \<lparr>emitted = [], nextId = 0,
      projectData = \<lparr>pd_project = \<lparr>project_id = 0\<rparr>, pd_documents = [], pd_diagnostics = []\<rparr>,
      documentDatas = [], symbolDatas = [], clearOnNode = [],
      documentHeap = (\<lambda>r. blank_DocumentData), documentCount = 0,
      symbolHeap = (\<lambda>h. blank_SymbolData), symbolCount = 0\<rparr>"

text \<open>The slot of a file in a symbol's partitions: absent, tombstone (null) or a partition.\<close>

definition partition_slot :: "('d, 'z) World_scheme \<Rightarrow> SymbolRef \<Rightarrow> string \<Rightarrow> SymbolDataPartition option option" where
  "partition_slot w h file =
     (case sd_partitions (symbolHeap w h) of
        partitions_map m \<Rightarrow> map_of m file
      | _ \<Rightarrow> None)"

subsection \<open>Paths: the functions of Node's \<open>path\<close> module (posix) that the visitor uses\<close>

text \<open>
  \<open>path.basename\<close>, \<open>path.dirname\<close> and \<open>path.extname\<close> belong to Node.js, not to this
  repository; "In typescript all paths are /. So use the posix layer only". They scan the
  path from its end:
  \<^item> \<open>basename\<close> skips the trailing slashes and returns the characters up to the slash
    before them;
  \<^item> \<open>dirname\<close> scans the characters after the first one: it skips the trailing slashes
    and the last component, and cuts the path at the slash it reaches (\<open>end\<close>); without
    such a slash it answers \<open>/\<close> for a path that begins with a slash and \<open>.\<close> otherwise,
    and \<open>//\<close> when the slash is the second character of a path that begins with one;
  \<^item> \<open>extname\<close> returns the last component from its last dot on, or the empty string when
    it has no dot, begins with its only dot or is \<open>..\<close>.
\<close>

definition path_basename :: "string \<Rightarrow> string" where
  "path_basename p = rev (takeWhile (\<lambda>c. c \<noteq> CHR ''/'') (dropWhile (\<lambda>c. c = CHR ''/'') (rev p)))"

definition path_dirname :: "string \<Rightarrow> string" where
  "path_dirname p =
     (if p = [] then ''.''
      else (let hasRoot = (hd p = CHR ''/'');
                r = dropWhile (\<lambda>c. c \<noteq> CHR ''/'') (dropWhile (\<lambda>c. c = CHR ''/'') (rev (tl p)));
                endp = length r
            in if r = [] then (if hasRoot then ''/'' else ''.'')
               else if hasRoot \<and> endp = 1 then ''//''
               else take endp p))"

definition path_extname :: "string \<Rightarrow> string" where
  "path_extname p =
     (let b = path_basename p;
          ext = rev (takeWhile (\<lambda>c. c \<noteq> CHR ''.'') (rev b));
          pre = take (length b - length ext - 1) b
      in if CHR ''.'' \<notin> set b \<or> pre = [] \<or> b = ''..'' then [] else CHR ''.'' # ext)"


function (sequential) node_modules_above :: "string \<Rightarrow> bool" where
  "node_modules_above dirName =
     (if path_basename dirName = ''node_modules'' then True
      else if path_dirname dirName \<noteq> dirName then node_modules_above (path_dirname dirName)
      else False)"
  by pat_completeness auto

lemma dropWhile_shorter:
  "dropWhile P xs \<noteq> xs \<Longrightarrow> length (dropWhile P xs) < length xs"
  by (cases xs) (auto simp: less_Suc_eq_le length_dropWhile_le split: if_splits)

text \<open>The position \<open>end\<close> found by the scan of path_dirname.\<close>

definition dirname_end :: "string \<Rightarrow> nat" where
  "dirname_end p =
     length (dropWhile (\<lambda>c. c \<noteq> CHR ''/'') (dropWhile (\<lambda>c. c = CHR ''/'') (rev (tl p))))"

lemma dirname_unfold:
  "path_dirname p =
     (if p = [] then ''.''
      else if dirname_end p = 0 then (if hd p = CHR ''/'' then ''/'' else ''.'')
      else if hd p = CHR ''/'' \<and> dirname_end p = Suc 0 then ''//''
      else take (dirname_end p) p)"
  unfolding path_dirname_def dirname_end_def Let_def
  by (simp only: length_0_conv One_nat_def)

lemma dirname_end_less: "p \<noteq> [] \<Longrightarrow> dirname_end p < length p"
proof -
  assume "p \<noteq> []"
  have "dirname_end p \<le> length (dropWhile (\<lambda>c. c = CHR ''/'') (rev (tl p)))"
    unfolding dirname_end_def by (rule length_dropWhile_le)
  also have "\<dots> \<le> length (rev (tl p))"
    by (rule length_dropWhile_le)
  finally show ?thesis using \<open>p \<noteq> []\<close> by (cases p) simp_all
qed

lemma dirname_end_1:
  assumes "dirname_end p = Suc 0"
  shows "length p \<ge> 3"
proof -
  let ?q = "dropWhile (\<lambda>c. c = CHR ''/'') (rev (tl p))"
  let ?r = "dropWhile (\<lambda>c. c \<noteq> CHR ''/'') ?q"
  have lr: "length ?r = Suc 0" using assms by (simp only: dirname_end_def)
  have r: "?r \<noteq> []"
  proof
    assume "?r = []"
    with lr show False by simp
  qed
  have q: "?q \<noteq> []"
  proof
    assume "?q = []"
    then have "?r = []" by (simp only: dropWhile.simps)
    with r show False by (rule notE)
  qed
  have "\<not> (hd ?r \<noteq> CHR ''/'')"
    using r by (rule hd_dropWhile)
  then have hr: "hd ?r = CHR ''/''" by (simp only: not_not)
  have hq: "\<not> (hd ?q = CHR ''/'')"
    using q by (rule hd_dropWhile)
  have "?r \<noteq> ?q"
  proof
    assume "?r = ?q"
    then have "hd ?r = hd ?q" by (rule arg_cong)
    with hr hq show False by (simp only:)
  qed
  then have "length ?r < length ?q" by (rule dropWhile_shorter)
  then have "length ?q \<ge> 2" using lr by simp
  moreover have "length ?q \<le> length (rev (tl p))" by (rule length_dropWhile_le)
  ultimately have "length (tl p) \<ge> 2" by simp
  then show ?thesis by (cases p) auto
qed

lemma dirname_end_fixed: "dirname_end ''.'' = 0" "dirname_end ''/'' = 0"
  by (simp_all add: dirname_end_def)

lemma dirname_fixed: "path_dirname ''/'' = ''/''" "path_dirname ''.'' = ''.''"
  by (simp_all add: path_dirname_def)

text \<open>The measure of the loop: the two fixed points of path_dirname are at the bottom.\<close>

definition dir_measure :: "string \<Rightarrow> nat" where
  "dir_measure d = (if d = ''.'' \<or> d = ''/'' then 0 else Suc (length d))"

lemma dir_measure_le: "dir_measure d \<le> Suc (length d)"
  by (simp add: dir_measure_def)

lemma dir_measure_other: "d \<noteq> ''.'' \<Longrightarrow> d \<noteq> ''/'' \<Longrightarrow> dir_measure d = Suc (length d)"
  by (simp add: dir_measure_def)

lemma dirname_smaller:
  assumes "path_dirname d \<noteq> d"
  shows "dir_measure (path_dirname d) < dir_measure d"
proof (cases "d = [] \<or> dirname_end d = 0")
  case True
  then have "path_dirname d = ''.'' \<or> path_dirname d = ''/''"
    by (auto simp: dirname_unfold)
  then have 0: "dir_measure (path_dirname d) = 0"
    by (auto simp: dir_measure_def)
  have "d \<noteq> ''.''" "d \<noteq> ''/''"
    using assms dirname_fixed by auto
  then show ?thesis using 0 by (simp add: dir_measure_other)
next
  case False
  then have ne: "d \<noteq> []" and e: "dirname_end d \<noteq> 0" by simp_all
  from e dirname_end_fixed have d: "d \<noteq> ''.''" "d \<noteq> ''/''" by auto
  show ?thesis
  proof (cases "hd d = CHR ''/'' \<and> dirname_end d = Suc 0")
    case True
    then have "length d \<ge> 3" using dirname_end_1 by blast
    moreover have "path_dirname d = ''//''" using True ne by (simp add: dirname_unfold)
    then have "dir_measure (path_dirname d) = 3" by (simp add: dir_measure_def)
    ultimately show ?thesis using d by (simp add: dir_measure_other)
  next
    case f: False
    then have "path_dirname d = take (dirname_end d) d"
      using ne e by (auto simp: dirname_unfold)
    then have "length (path_dirname d) < length d"
      using dirname_end_less [OF ne] by simp
    with dir_measure_le [of "path_dirname d"] show ?thesis
      using d by (simp add: dir_measure_other)
  qed
qed

termination node_modules_above
proof (relation "measure dir_measure")
  show "wf (measure dir_measure)"
    by (rule wf_measure)
next
  fix dirName :: string
  assume "path_basename dirName \<noteq> ''node_modules''" and ne: "path_dirname dirName \<noteq> dirName"
  from dirname_smaller [OF ne]
  show "(path_dirname dirName, dirName) \<in> measure dir_measure"
    by (simp only: in_measure)
qed

text \<open>
  \<open>Visitor.isFullContentIgnored\<close>. The do-while loop is \<open>node_modules_above\<close>, started at the
  directory of the file: it looks at the last component of the directory, then goes one
  directory up until \<open>path.dirname\<close> returns its argument.
\<close>

definition isFullContentIgnored :: "SourceFile \<Rightarrow> bool" where
  "isFullContentIgnored sourceFile =
     (if isDeclarationFile sourceFile then True
      else if path_basename (fileName sourceFile) = ''index.js'' then False
      else if path_extname (fileName sourceFile) \<noteq> ''.js'' then False
      else node_modules_above (path_dirname (fileName sourceFile)))"





subsection \<open>Symbols: the caches over the type checker\<close>

text \<open>A ts.Symbol is an object of the compiler; the model names it by a handle.\<close>

type_synonym Symbol = nat

text \<open>
  Modelled from the spec: the LRUCache of ./utils/linkedMap is not in the sources. It is
  a bounded cache (spec 4.2, 9): \<open>get\<close> returns the value of a key and makes its entry the
  most recent one; \<open>set\<close> stores the value as the most recent entry and then drops the
  least recent entries beyond the limit. The entries are kept least recent first.
\<close>

record ('k, 'v) LRUCache =
  lru_limit :: nat
  lru_entries :: "('k \<times> 'v) list"

definition new_LRUCache :: "nat \<Rightarrow> ('k, 'v) LRUCache" where
  "new_LRUCache limit = \<lparr>lru_limit = limit, lru_entries = []\<rparr>"

definition LRUCache_get :: "'k \<Rightarrow> ('k, 'v) LRUCache \<Rightarrow> 'v option \<times> ('k, 'v) LRUCache" where
  "LRUCache_get k c =
     (case map_of (lru_entries c) k of
        None \<Rightarrow> (None, c)
      | Some v \<Rightarrow> (Some v, c\<lparr>lru_entries := AList.delete k (lru_entries c) @ [(k, v)]\<rparr>))"

definition LRUCache_set :: "'k \<Rightarrow> 'v \<Rightarrow> ('k, 'v) LRUCache \<Rightarrow> ('k, 'v) LRUCache" where
  "LRUCache_set k v c =
     (let entries = AList.delete k (lru_entries c) @ [(k, v)]
      in c\<lparr>lru_entries := drop (length entries - lru_limit c) entries\<rparr>)"

text \<open>
  What the code asks of the type checker and of \<open>tss\<close> (./typescripts, not in the sources)
  about a symbol:
  \<^item> \<open>createSymbolKey\<close>, \<open>isTypeLiteral\<close>, \<open>isInterface\<close>, \<open>isClass\<close>;
  \<^item> \<open>classHeritage\<close>: undefined if \<open>symbol.getDeclarations()\<close> is; else, for every type of
    every heritage clause of every class declaration in turn, the symbol of
    \<open>getTypeAtLocation(type.expression)\<close> if there is one;
  \<^item> \<open>interfaceBases\<close>: undefined if \<open>getDeclaredTypeOfSymbol\<close> is; else \<open>getBaseTypes()\<close> of the
    type (which may be undefined) with the symbol of every base type if there is one;
  \<^item> \<open>members\<close>: the table \<open>symbol.members\<close>, which may be undefined;
  \<^item> \<open>isSourceFileSymbol\<close> (\<open>tss.isSourceFile\<close>), \<open>getSymbolParent\<close>, \<open>getName\<close>, and \<open>exports\<close>:
    whether the table \<open>symbol.exports\<close>, which may be undefined, has a name;
  \<^item> \<open>isAliasSymbol\<close>, \<open>isMethodSymbol\<close>, \<open>isTransient\<close>, \<open>isValueModule\<close>, \<open>getDeclarations\<close>,
    \<open>getAliasedSymbol\<close>, \<open>getSymbolAtLocation\<close>;
  \<^item> \<open>unionOrIntersectionTypes\<close>: for \<open>getTypeOfSymbolAtLocation(symbol, location)\<close>, undefined
    unless the type is a union or intersection, else the symbol (if any) of every one of
    its \<open>types\<close>.
\<close>

record TypeChecker =
  createSymbolKey :: "Symbol \<Rightarrow> string"
  isTypeLiteral :: "Symbol \<Rightarrow> bool"
  isInterface :: "Symbol \<Rightarrow> bool"
  isClass :: "Symbol \<Rightarrow> bool"
  classHeritage :: "Symbol \<Rightarrow> Symbol option list option"
  interfaceBases :: "Symbol \<Rightarrow> Symbol option list option option"
  members :: "Symbol \<Rightarrow> (string \<Rightarrow> Symbol option) option"
  isSourceFileSymbol :: "Symbol \<Rightarrow> bool"
  getSymbolParent :: "Symbol \<Rightarrow> Symbol option"
  getName :: "Symbol \<Rightarrow> string"
  exports :: "Symbol \<Rightarrow> (string \<Rightarrow> bool) option"
  isAliasSymbol :: "Symbol \<Rightarrow> bool"
  isMethodSymbol :: "Symbol \<Rightarrow> bool"
  isTransient :: "Symbol \<Rightarrow> bool"
  isValueModule :: "Symbol \<Rightarrow> bool"
  getDeclarations :: "Symbol \<Rightarrow> Node list option"
  getAliasedSymbol :: "Symbol \<Rightarrow> Symbol option"
  getSymbolAtLocation :: "Node \<Rightarrow> Symbol option"
  unionOrIntersectionTypes :: "Symbol \<Rightarrow> Node \<Rightarrow> Symbol option list option"

text \<open>
  The arrays of symbols and the inner member caches are objects that several places
  refer to: \<open>findBaseMembers\<close> stores the array it returns in a cache, takes the array of
  a base as its own result and pushes on it. The model keeps them in two stores and
  passes references.
\<close>

type_synonym ArrayRef = nat
type_synonym CacheRef = nat

record Symbols =
  arrays :: "ArrayRef \<Rightarrow> Symbol list"
  arrayCount :: nat
  memberCaches :: "CacheRef \<Rightarrow> (string, ArrayRef) LRUCache"
  memberCacheCount :: nat
  baseSymbolCache :: "(string, ArrayRef) LRUCache"
  baseMemberCache :: "(string, CacheRef) LRUCache"
  exportedPaths :: "(Symbol, string option) LRUCache"

definition new_Symbols :: Symbols where
  "new_Symbols =
     \<lparr>arrays = (\<lambda>a. []), arrayCount = 0,
      memberCaches = (\<lambda>c. new_LRUCache 64), memberCacheCount = 0,
      baseSymbolCache = new_LRUCache 2048, baseMemberCache = new_LRUCache 2048,
      exportedPaths = new_LRUCache 2048\<rparr>"

text \<open>An array literal: a new array.\<close>

definition new_array :: "Symbol list \<Rightarrow> Symbols \<Rightarrow> ArrayRef \<times> Symbols" where
  "new_array xs s =
     (arrayCount s, s\<lparr>arrays := (arrays s)(arrayCount s := xs), arrayCount := Suc (arrayCount s)\<rparr>)"

text \<open>\<open>array.push(...xs)\<close>\<close>

definition array_push :: "ArrayRef \<Rightarrow> Symbol list \<Rightarrow> Symbols \<Rightarrow> Symbols" where
  "array_push a xs s = s\<lparr>arrays := (arrays s)(a := arrays s a @ xs)\<rparr>"

definition computeBaseSymbolsForClass :: "TypeChecker \<Rightarrow> Symbol \<Rightarrow> Symbols \<Rightarrow> ArrayRef option \<times> Symbols" where
  "computeBaseSymbolsForClass tc symbol s =
     (case classHeritage tc symbol of
        None \<Rightarrow> (None, s)
      | Some types \<Rightarrow>
          (let result = concat (map (\<lambda>t. case t of None \<Rightarrow> [] | Some b \<Rightarrow> [b]) types)
           in if length result = 0 then (None, s)
              else (case new_array result s of (a, s1) \<Rightarrow> (Some a, s1))))"

definition computeBaseSymbolsForInterface :: "TypeChecker \<Rightarrow> Symbol \<Rightarrow> Symbols \<Rightarrow> ArrayRef option \<times> Symbols" where
  "computeBaseSymbolsForInterface tc symbol s =
     (case interfaceBases tc symbol of
        None \<Rightarrow> (None, s)
      | Some baseTypes \<Rightarrow>
          (let result = (case baseTypes of
                           None \<Rightarrow> []
                         | Some bases \<Rightarrow> concat (map (\<lambda>t. case t of None \<Rightarrow> [] | Some b \<Rightarrow> [b]) bases))
           in if length result = 0 then (None, s)
              else (case new_array result s of (a, s1) \<Rightarrow> (Some a, s1))))"

definition getBaseSymbols :: "TypeChecker \<Rightarrow> Symbol \<Rightarrow> Symbols \<Rightarrow> ArrayRef option \<times> Symbols" where
  "getBaseSymbols tc symbol s =
     (let key = createSymbolKey tc symbol
      in case LRUCache_get key (baseSymbolCache s) of (cached, c1) \<Rightarrow>
           (let s1 = s\<lparr>baseSymbolCache := c1\<rparr>
            in case cached of
                 Some result \<Rightarrow> (Some result, s1)
               | None \<Rightarrow>
                   if isTypeLiteral tc symbol then (None, s1)
                   else (case (if isInterface tc symbol then computeBaseSymbolsForInterface tc symbol s1
                               else if isClass tc symbol then computeBaseSymbolsForClass tc symbol s1
                               else (None, s1)) of
                           (None, s2) \<Rightarrow> (None, s2)
                         | (Some result, s2) \<Rightarrow>
                             (Some result,
                              s2\<lparr>baseSymbolCache := LRUCache_set key result (baseSymbolCache s2)\<rparr>))))"

text \<open>
  \<open>findBaseMembers\<close> calls itself for the bases, without a bound of its own: the first
  argument bounds the depth of the calls, and running out of it is the RangeError of
  the call stack. \<open>findBaseMembers_bases\<close> is the loop over the base symbols, with the
  local variable \<open>result\<close> as an argument.
\<close>

fun findBaseMembers :: "nat \<Rightarrow> TypeChecker \<Rightarrow> Symbol \<Rightarrow> string \<Rightarrow> Symbols
      \<Rightarrow> ArrayRef option Outcome \<times> Symbols"
  and findBaseMembers_bases :: "nat \<Rightarrow> TypeChecker \<Rightarrow> string \<Rightarrow> Symbol list \<Rightarrow> ArrayRef option
      \<Rightarrow> Symbols \<Rightarrow> ArrayRef option Outcome \<times> Symbols" where
  "findBaseMembers 0 tc symbol memberName s = (Throw StackOverflow, s)"
| "findBaseMembers (Suc depth) tc symbol memberName s =
     (let key = createSymbolKey tc symbol
      in case LRUCache_get key (baseMemberCache s) of (cached, c1) \<Rightarrow>
         (let s1 = s\<lparr>baseMemberCache := c1\<rparr>
          in case (case cached of
                     Some cache \<Rightarrow> (cache, s1)
                   | None \<Rightarrow>
                       (memberCacheCount s1,
                        s1\<lparr>memberCaches := (memberCaches s1)(memberCacheCount s1 := new_LRUCache 64),
                           memberCacheCount := Suc (memberCacheCount s1),
                           baseMemberCache := LRUCache_set key (memberCacheCount s1) (baseMemberCache s1)\<rparr>))
             of (cache, s2) \<Rightarrow>
               (case LRUCache_get memberName (memberCaches s2 cache) of (result, m1) \<Rightarrow>
                  (let s3 = s2\<lparr>memberCaches := (memberCaches s2)(cache := m1)\<rparr>
                   in case result of
                        Some r \<Rightarrow>
                          if length (arrays s3 r) = 0 then (Return None, s3) else (Return (Some r), s3)
                      | None \<Rightarrow>
                          (case getBaseSymbols tc symbol s3 of (baseSymbols, s4) \<Rightarrow>
                             (case (case baseSymbols of
                                      None \<Rightarrow> (Return None, s4)
                                    | Some bs \<Rightarrow>
                                        findBaseMembers_bases depth tc memberName (arrays s4 bs) None s4)
                              of (Throw e, s5) \<Rightarrow> (Throw e, s5)
                               | (Return (Some r), s5) \<Rightarrow>
                                   (Return (Some r),
                                    s5\<lparr>memberCaches := (memberCaches s5)
                                          (cache := LRUCache_set memberName r (memberCaches s5 cache))\<rparr>)
                               | (Return None, s5) \<Rightarrow>
                                   (case new_array [] s5 of (emptyArray, s6) \<Rightarrow>
                                      (Return None,
                                       s6\<lparr>memberCaches := (memberCaches s6)
                                             (cache := LRUCache_set memberName emptyArray
                                                         (memberCaches s6 cache))\<rparr>))))))))"
| "findBaseMembers_bases depth tc memberName [] result s = (Return result, s)"
| "findBaseMembers_bases depth tc memberName (base # bases) result s =
     (case members tc base of
        None \<Rightarrow> findBaseMembers_bases depth tc memberName bases result s
      | Some table \<Rightarrow>
          (case table memberName of
             Some method \<Rightarrow>
               (case result of
                  None \<Rightarrow> (case new_array [method] s of (a, s1) \<Rightarrow>
                             findBaseMembers_bases depth tc memberName bases (Some a) s1)
                | Some r \<Rightarrow>
                    findBaseMembers_bases depth tc memberName bases (Some r) (array_push r [method] s))
           | None \<Rightarrow>
               (case findBaseMembers depth tc base memberName s of
                  (Throw e, s1) \<Rightarrow> (Throw e, s1)
                | (Return None, s1) \<Rightarrow> findBaseMembers_bases depth tc memberName bases result s1
                | (Return (Some baseResult), s1) \<Rightarrow>
                    (case result of
                       None \<Rightarrow> findBaseMembers_bases depth tc memberName bases (Some baseResult) s1
                     | Some r \<Rightarrow>
                         findBaseMembers_bases depth tc memberName bases (Some r)
                           (array_push r (arrays s1 baseResult) s1)))))"


text \<open>
  \<open>getExportPath\<close>; null is \<open>None\<close>. It calls itself for the parent; the first argument
  bounds the depth of the calls as in \<open>findBaseMembers\<close>.
\<close>

definition cache_exportPath :: "Symbol \<Rightarrow> string option \<Rightarrow> Symbols \<Rightarrow> string option Outcome \<times> Symbols" where
  "cache_exportPath symbol result s =
     (Return result, s\<lparr>exportedPaths := LRUCache_set symbol result (exportedPaths s)\<rparr>)"

fun getExportPath :: "nat \<Rightarrow> TypeChecker \<Rightarrow> Symbol \<Rightarrow> Symbols \<Rightarrow> string option Outcome \<times> Symbols" where
  "getExportPath 0 tc symbol s = (Throw StackOverflow, s)"
| "getExportPath (Suc depth) tc symbol s =
     (case LRUCache_get symbol (exportedPaths s) of
        (Some result, c1) \<Rightarrow> (Return result, s\<lparr>exportedPaths := c1\<rparr>)
      | (None, c1) \<Rightarrow>
          (let s1 = s\<lparr>exportedPaths := c1\<rparr>
           in if isSourceFileSymbol tc symbol then cache_exportPath symbol (Some []) s1
              else (case getSymbolParent tc symbol of
                      None \<Rightarrow> cache_exportPath symbol None s1
                    | Some parent \<Rightarrow>
                        (case getExportPath depth tc parent s1 of
                           (Throw e, s2) \<Rightarrow> (Throw e, s2)
                         | (Return None, s2) \<Rightarrow> cache_exportPath symbol None s2
                         | (Return (Some parentValue), s2) \<Rightarrow>
                             if isInterface tc parent \<or> isClass tc parent
                             then cache_exportPath symbol
                                    (Some (parentValue @ ''.'' @ getName tc symbol)) s2
                             else (case exports tc parent of
                                     Some has \<Rightarrow>
                                       if has (getName tc symbol)
                                       then cache_exportPath symbol
                                              (Some (if length parentValue > 0
                                                     then parentValue @ ''.'' @ getName tc symbol
                                                     else getName tc symbol)) s2
                                       else cache_exportPath symbol None s2
                                   | None \<Rightarrow> cache_exportPath symbol None s2)))))"

subsection \<open>The syntax tree and the language service\<close>

text \<open>
  The kinds of node that \<open>Visitor.visit\<close> tells apart; every other kind is \<open>OtherKind\<close>.
  A tree is a node with its children in the order of \<open>forEachChild\<close>; a source file is a
  node of the kind SourceFile.
\<close>

datatype SyntaxKind =
    ModuleDeclaration | ClassDeclaration | InterfaceDeclaration | TypeParameter
  | MethodDeclaration | MethodSignature | FunctionDeclaration | Parameter
  | ClassExpression | Identifier | OtherKind

datatype Tree = SourceFileTree SourceFile "Tree list" | NodeTree nat SyntaxKind "Tree list"

fun node_of :: "Tree \<Rightarrow> Node" where
  "node_of (SourceFileTree f children) = SourceFileNode f"
| "node_of (NodeTree n kind children) = OtherNode n"

record ResolvedModule =
  resolvedFileName :: string
  isExternalLibraryImport :: bool

text \<open>
  What the visitor asks of the language service, of the program, of the nodes and of
  \<open>tss\<close> (./typescripts, not in the sources), apart from the type checker's answers above:
  \<^item> \<open>program_sourceFiles\<close>: \<open>program.getSourceFiles()\<close>, every file with its children;
  \<^item> \<open>compilerOptions_outDir\<close>, \<open>compilerOptions_rootDir\<close>: the compiler options;
  \<^item> \<open>resolvedModules\<close>: \<open>tss.getResolvedModules(sourceFile)\<close>, a map whose values may be
    undefined, or undefined;
  \<^item> \<open>syntacticDiagnostics\<close>, \<open>semanticDiagnostics\<close>: the diagnostics of a file, converted by
    \<open>Converter.asDiagnostic\<close>; a semantic diagnostic comes with the answer to
    \<open>file !== undefined && start !== undefined && length !== undefined\<close>;
  \<^item> \<open>outliningSpans\<close>: the spans of a file name, converted by \<open>Converter.asFoldingRange\<close>;
  \<^item> \<open>quickInfo\<close>: \<open>getQuickInfoAtPosition(fileName, position)\<close> converted by
    \<open>Converter.asHover\<close>, or undefined;
  \<^item> of a node: \<open>getSourceFile()\<close>, \<open>name\<close>, \<open>tss.isNamedDeclaration\<close>, \<open>getText()\<close>,
    \<open>getStart()\<close>, \<open>getEnd()\<close>, the chain \<open>parent\<close>, \<open>parent.parent\<close>, ... up to the root, and
    whether \<open>tss.EmitBoundaries\<close> has its kind;
  \<^item> \<open>lineAndCharacter\<close>: \<open>file.getLineAndCharacterOfPosition\<close>;
  \<^item> \<open>uniqueSourceFiles\<close>: the values of \<open>tss.getUniqueSourceFiles(declarations)\<close>;
  \<^item> \<open>createDefinitionInfo\<close> and \<open>DefinitionInfo.equals\<close> of \<open>tss\<close>;
  \<^item> \<open>makeAbsolute\<close>, \<open>computeMonikerPath\<close>, \<open>toOutLocation\<close>, \<open>createMonikerIdentifier\<close> of
    \<open>tss\<close>.
\<close>

record 'd LanguageService =
  typeChecker :: TypeChecker
  program_sourceFiles :: "(SourceFile \<times> Tree list) list"
  compilerOptions_outDir :: "string option"
  compilerOptions_rootDir :: "string option"
  resolvedModules :: "SourceFile \<Rightarrow> ResolvedModule option list option"
  syntacticDiagnostics :: "SourceFile \<Rightarrow> Diagnostic list"
  semanticDiagnostics :: "SourceFile \<Rightarrow> (bool \<times> Diagnostic) list"
  outliningSpans :: "string \<Rightarrow> FoldingRange list"
  quickInfo :: "string \<Rightarrow> nat \<Rightarrow> Hover option"
  node_sourceFile :: "Node \<Rightarrow> SourceFile"
  node_name :: "Node \<Rightarrow> Node option"
  isNamedDeclaration :: "Node \<Rightarrow> bool"
  node_text :: "Node \<Rightarrow> string"
  node_start :: "Node \<Rightarrow> nat"
  node_end :: "Node \<Rightarrow> nat"
  node_ancestors :: "Node \<Rightarrow> Node list"
  isEmitBoundary :: "Node \<Rightarrow> bool"
  lineAndCharacter :: "SourceFile \<Rightarrow> nat \<Rightarrow> Position"
  uniqueSourceFiles :: "Node list option \<Rightarrow> SourceFile list"
  createDefinitionInfo :: "SourceFile \<Rightarrow> Node \<Rightarrow> 'd"
  definitionInfo_equals :: "'d \<Rightarrow> 'd \<Rightarrow> bool"
  makeAbsolute :: "string \<Rightarrow> string option \<Rightarrow> string"
  computeMonikerPath :: "string \<Rightarrow> string \<Rightarrow> string option"
  toOutLocation :: "string \<Rightarrow> string option \<Rightarrow> string option \<Rightarrow> string"
  createMonikerIdentifier :: "string option \<Rightarrow> string option \<Rightarrow> string"

text \<open>\<open>Converter.rangeFromNode\<close>\<close>

definition Converter_rangeFromNode :: "'d LanguageService \<Rightarrow> SourceFile \<Rightarrow> Node \<Rightarrow> lsp_Range" where
  "Converter_rangeFromNode host fl node =
     (let start = (if SourceFileNode fl = node then \<lparr>line = 0, character = 0\<rparr>
                   else lineAndCharacter host fl (node_start host node));
          endp = lineAndCharacter host fl (node_end host node)
      in \<lparr>range_start = \<lparr>line = line start, character = character start\<rparr>,
          range_end = \<lparr>line = line endp, character = character endp\<rparr>\<rparr>)"

text \<open>\<open>this.vertex.range(range, tag)\<close> with the id that the builder took.\<close>

definition range_vertex :: "Id \<Rightarrow> lsp_Range \<Rightarrow> RangeTag \<Rightarrow> RangeVertex" where
  "range_vertex i rng tag =
     \<lparr>range_start = range_start rng, range_end = range_end rng, range_id = i, range_tag = tag\<rparr>"

subsection \<open>Visitor\<close>

record ProjectInfo =
  info_rootDir :: "string option"
  info_outDir :: "string option"

record Options =
  options_projectRoot :: string
  options_noContents :: bool

text \<open>
  The visitor owns the builder, the emitter and the DataManager: its state extends the
  world with its own fields. \<open>symbolContainer\<close> is the stack of the document symbols under
  construction, the top last. In the code a child is put into the \<open>children\<close> array of the
  container on top of the stack and then pushed itself, so that what it receives later is
  seen through its parent; the model keeps an entry's children in the entry and puts the
  entry into its parent's children when it is popped, which is when it is complete.
\<close>

record 'd Visitor = "'d World" +
  symbols :: Symbols
  project :: Project
  projectRoot :: string
  rootDir :: "string option"
  outDir :: "string option"
  dependentOutDirs :: "string list"
  currentSourceFile :: "SourceFile option"
  v_currentDocumentData :: "DocumentRef option"
  symbolContainer :: "(Id \<times> RangeBasedDocumentSymbol list) list"
  recordDocumentSymbol :: "bool list"
  externalLibraryImports :: "(string \<times> ResolvedModule) list"

text \<open>A method of \<open>Symbols\<close> called by the visitor.\<close>

definition on_symbols :: "(Symbols \<Rightarrow> 'a Outcome \<times> Symbols) \<Rightarrow> 'd Visitor \<Rightarrow> 'a Outcome \<times> 'd Visitor" where
  "on_symbols m v = (case m (symbols v) of (r, s) \<Rightarrow> (r, v\<lparr>symbols := s\<rparr>))"

text \<open>\<open>xs.map(f)\<close> and a loop that carries a local variable, with a body that may throw.\<close>

primrec mapM :: "'a list \<Rightarrow> ('a \<Rightarrow> 'w \<Rightarrow> 'b Outcome \<times> 'w) \<Rightarrow> 'w \<Rightarrow> 'b list Outcome \<times> 'w" where
  "mapM [] f w = (Return [], w)"
| "mapM (x # xs) f w =
     (case f x w of
        (Throw e, w1) \<Rightarrow> (Throw e, w1)
      | (Return y, w1) \<Rightarrow>
          (case mapM xs f w1 of
             (Throw e, w2) \<Rightarrow> (Throw e, w2)
           | (Return ys, w2) \<Rightarrow> (Return (y # ys), w2)))"

primrec foldM :: "'a list \<Rightarrow> ('a \<Rightarrow> 's \<Rightarrow> 'w \<Rightarrow> 's Outcome \<times> 'w) \<Rightarrow> 's \<Rightarrow> 'w \<Rightarrow> 's Outcome \<times> 'w" where
  "foldM [] f s w = (Return s, w)"
| "foldM (x # xs) f s w =
     (case f x s w of
        (Throw e, w1) \<Rightarrow> (Throw e, w1)
      | (Return s1, w1) \<Rightarrow> foldM xs f s1 w1)"

text \<open>
  The constructor. \<open>dependentOutDirs\<close> is sorted by descending length; the meta data vertex
  is emitted, the project vertex is built, and the DataManager emits it.
\<close>

definition blank_Visitor :: "'d Visitor" where
  "blank_Visitor =
     \<lparr>emitted = [], nextId = 0,
      projectData = \<lparr>pd_project = \<lparr>project_id = 0\<rparr>, pd_documents = [], pd_diagnostics = []\<rparr>,
      documentDatas = [], symbolDatas = [], clearOnNode = [],
      documentHeap = (\<lambda>r. blank_DocumentData), documentCount = 0,
      symbolHeap = (\<lambda>h. blank_SymbolData), symbolCount = 0,
      symbols = new_Symbols, project = \<lparr>project_id = 0\<rparr>, projectRoot = [],
      rootDir = None, outDir = None, dependentOutDirs = [], currentSourceFile = None,
      v_currentDocumentData = None, symbolContainer = [], recordDocumentSymbol = [],
      externalLibraryImports = []\<rparr>"

definition new_Visitor :: "'d LanguageService \<Rightarrow> Options \<Rightarrow> ProjectInfo list \<Rightarrow> string option \<Rightarrow> 'd Visitor" where
  "new_Visitor languageService options dependsOn tsConfigFile =
     (let v0 = blank_Visitor
                 \<lparr>dependentOutDirs :=
                    sort_key (\<lambda>d. - int (length d))
                      (map (\<lambda>info. case info_outDir info of None \<Rightarrow> [] | Some d \<Rightarrow> d) dependsOn),
                  projectRoot := options_projectRoot options\<rparr>
      in case fresh v0 of (i, v1) \<Rightarrow>
         (case fresh (emit (Vtx (V_metaData i)) v1) of (j, v2) \<Rightarrow>
            (let configLocation = map_option path_dirname tsConfigFile;
                 v3 = v2\<lparr>project := \<lparr>project_id = j\<rparr>,
                         outDir := map_option (\<lambda>d. makeAbsolute languageService d configLocation)
                                     (compilerOptions_outDir languageService),
                         rootDir := map_option (\<lambda>d. makeAbsolute languageService d configLocation)
                                      (compilerOptions_rootDir languageService)\<rparr>;
                 v4 = new_DataManager (project v3) v3
             in v4\<lparr>symbols := new_Symbols\<rparr>)))"

text \<open>\<open>Visitor.getOrCreateDocumentData\<close> with its local function \<open>computeMonikerPath\<close>.\<close>

text \<open>\<open>s.startsWith(d)\<close>\<close>

definition startsWith :: "string \<Rightarrow> string \<Rightarrow> bool" where
  "startsWith s d = (take (length d) s = d)"

definition Visitor_computeMonikerPath :: "'d LanguageService \<Rightarrow> SourceFile \<Rightarrow> 'd Visitor \<Rightarrow> string option" where
  "Visitor_computeMonikerPath host sourceFile v =
     (if \<not> isDeclarationFile sourceFile
      then computeMonikerPath host (projectRoot v)
             (toOutLocation host (fileName sourceFile) (rootDir v) (outDir v))
      else (case find (startsWith (fileName sourceFile)) (dependentOutDirs v) of
              Some d \<Rightarrow> computeMonikerPath host (projectRoot v) (fileName sourceFile)
            | None \<Rightarrow> None))"

definition Visitor_getOrCreateDocumentData :: "'d LanguageService \<Rightarrow> SourceFile \<Rightarrow> 'd Visitor
    \<Rightarrow> DocumentRef Outcome \<times> 'd Visitor" where
  "Visitor_getOrCreateDocumentData host sourceFile =
     seq (getDocumentData (fileName sourceFile))
       (\<lambda>result. case result of
          Some r \<Rightarrow> ret r
        | None \<Rightarrow>
            (\<lambda>v. case fresh v of (i, v1) \<Rightarrow>
               (let document = \<lparr>document_id = i, document_uri = fileName sourceFile\<rparr>;
                    resolvedModule = map_of (externalLibraryImports v1) (fileName sourceFile);
                    library = (resolvedModule \<noteq> None);
                    monikerPath = (if resolvedModule \<noteq> None
                                   then computeMonikerPath host (projectRoot v1) (fileName sourceFile)
                                   else Visitor_computeMonikerPath host sourceFile v1)
                in getOrCreateDocumentData (fileName sourceFile) document monikerPath library v1)))"
subsection \<open>The resolvers\<close>

datatype Resolver = StandardResolver | TypeAliasResolver | MethodResolver | TransientResolver

fun requiresSourceFile :: "Resolver \<Rightarrow> bool" where
  "requiresSourceFile StandardResolver = False"
| "requiresSourceFile TypeAliasResolver = False"
| "requiresSourceFile MethodResolver = True"
| "requiresSourceFile TransientResolver = True"

definition getResolver :: "TypeChecker \<Rightarrow> Symbol \<Rightarrow> Resolver" where
  "getResolver tc symbol =
     (if isAliasSymbol tc symbol then TypeAliasResolver
      else if isMethodSymbol tc symbol then MethodResolver
      else if isTransient tc symbol then TransientResolver
      else StandardResolver)"

definition getDeclarationNodes :: "Resolver \<Rightarrow> TypeChecker \<Rightarrow> Symbol \<Rightarrow> Node option
    \<Rightarrow> 'w \<Rightarrow> Node list option Outcome \<times> 'w" where
  "getDeclarationNodes resolver tc symbol location =
     (case resolver of
        TransientResolver \<Rightarrow>
          (case location of
             None \<Rightarrow> throw TransientNeedsDeclaration
           | Some l \<Rightarrow> ret (Some [l]))
      | _ \<Rightarrow> ret (getDeclarations tc symbol))"

definition getSourceFiles :: "Resolver \<Rightarrow> 'd LanguageService \<Rightarrow> Symbol \<Rightarrow> Node option
    \<Rightarrow> 'w \<Rightarrow> SourceFile list Outcome \<times> 'w" where
  "getSourceFiles resolver host symbol location =
     (case resolver of
        TransientResolver \<Rightarrow>
          (case location of
             None \<Rightarrow> throw TransientNeedsDeclaration
           | Some l \<Rightarrow> ret [node_sourceFile host l])
      | _ \<Rightarrow> ret (uniqueSourceFiles host (getDeclarations (typeChecker host) symbol)))"

definition getPartitionScope :: "SourceFile list \<Rightarrow> 'w \<Rightarrow> SourceFile Outcome \<times> 'w" where
  "getPartitionScope sourceFiles =
     (if length sourceFiles = 0 then throw NoSourceFileSelection else ret (hd sourceFiles))"

text \<open>\<open>new XSymbolData(...)\<close> as a step of the visitor.\<close>

definition construct :: "string \<Rightarrow> Node option \<Rightarrow> Variant \<Rightarrow> ('d, 'z) World_scheme
    \<Rightarrow> SymbolRef Outcome \<times> ('d, 'z) World_scheme" where
  "construct sid scope variant w =
     (case new_SymbolData sid scope variant w of (h, w1) \<Rightarrow> (Return h, w1))"

text \<open>
  \<open>findDefinition\<close> through a reference: AliasedSymbolData hands the call to the aliased
  symbol unless it is a rename. The first argument bounds the depth of the calls.
\<close>

fun findDefinition :: "nat \<Rightarrow> SymbolRef \<Rightarrow> SourceFile \<Rightarrow> lsp_Range \<Rightarrow> ('d, 'z) World_scheme
    \<Rightarrow> RangeVertex option Outcome \<times> ('d, 'z) World_scheme" where
  "findDefinition 0 h sourceFile rng w = (Throw StackOverflow, w)"
| "findDefinition (Suc depth) h sourceFile rng w =
     (case sd_variant (symbolHeap w h) of
        Aliased aliased rename \<Rightarrow>
          if rename then StandardSymbolData_findDefinition h sourceFile rng w
          else findDefinition depth aliased sourceFile rng w
      | _ \<Rightarrow> StandardSymbolData_findDefinition h sourceFile rng w)"

text \<open>
  \<open>resolveEmittingNode\<close>: the scope of a symbol that has no export path and one
  declaration. The while loop walks the parents of the declaration up to the first emit
  boundary.
\<close>

definition resolveEmittingNode :: "nat \<Rightarrow> 'd LanguageService \<Rightarrow> Symbol \<Rightarrow> 'd Visitor
    \<Rightarrow> Node option Outcome \<times> 'd Visitor" where
  "resolveEmittingNode depth host symbol =
     seq (on_symbols (getExportPath depth (typeChecker host) symbol))
       (\<lambda>exportPath.
          if exportPath \<noteq> None then ret None
          else (case getDeclarations (typeChecker host) symbol of
                  None \<Rightarrow> ret None
                | Some decls \<Rightarrow>
                    if length decls \<noteq> 1 then ret None
                    else (let declaration = hd decls in
                          if isValueModule (typeChecker host) symbol \<and> isSourceFile declaration
                          then ret None
                          else if isAliasSymbol (typeChecker host) symbol
                          then (let sourceFile = node_sourceFile host declaration
                                in ret (if isFullContentIgnored sourceFile then None
                                        else Some (SourceFileNode sourceFile)))
                          else (case declaration of
                                  SourceFileNode f \<Rightarrow>
                                    ret (if isFullContentIgnored f then None else Some declaration)
                                | OtherNode n \<Rightarrow>
                                    (case find (isEmitBoundary host) (node_ancestors host declaration) of
                                       None \<Rightarrow> ret None
                                     | Some result \<Rightarrow>
                                         ret (if isFullContentIgnored (node_sourceFile host result)
                                              then None else Some result))))))"

text \<open>
  The loop of \<open>getOrCreateSymbolData\<close> over the source files: every document data is
  created, and the moniker path is the common one of the documents. The local variable
  \<open>monikerPath\<close> is undefined, null or a string.
\<close>

datatype MonikerPath = mp_undefined | mp_null | mp_string string

fun as_MonikerPath :: "string option \<Rightarrow> MonikerPath" where
  "as_MonikerPath None = mp_undefined"
| "as_MonikerPath (Some s) = mp_string s"

definition create_documents :: "'d LanguageService \<Rightarrow> SourceFile list \<Rightarrow> 'd Visitor
    \<Rightarrow> (string option \<times> bool) Outcome \<times> 'd Visitor" where
  "create_documents host sourceFiles =
     seq (foldM sourceFiles
            (\<lambda>sourceFile (monikerPath, externalLibrary).
               seq (Visitor_getOrCreateDocumentData host sourceFile)
                 (\<lambda>documentData v.
                    (let dd = documentHeap v documentData in
                     if monikerPath = mp_undefined
                     then (Return (as_MonikerPath (dd_monikerPath dd), dd_externalLibrary dd), v)
                     else if monikerPath \<noteq> as_MonikerPath (dd_monikerPath dd)
                     then (Return (mp_null, externalLibrary), v)
                     else (Return (monikerPath, externalLibrary), v))))
            (mp_undefined, False))
       (\<lambda>(monikerPath, externalLibrary).
          ret (case monikerPath of
                 mp_null \<Rightarrow> (None, False)
               | mp_undefined \<Rightarrow> (None, externalLibrary)
               | mp_string s \<Rightarrow> (Some s, externalLibrary)))"

text \<open>The moniker of the symbol.\<close>

definition add_moniker :: "nat \<Rightarrow> 'd LanguageService \<Rightarrow> Symbol \<Rightarrow> string option \<Rightarrow> bool \<Rightarrow> SymbolRef
    \<Rightarrow> 'd Visitor \<Rightarrow> unit Outcome \<times> 'd Visitor" where
  "add_moniker depth host symbol monikerPath externalLibrary result =
     seq (if isSourceFileSymbol (typeChecker host) symbol \<and> monikerPath \<noteq> None
          then ret (Some (createMonikerIdentifier host monikerPath None))
          else seq (on_symbols (getExportPath depth (typeChecker host) symbol))
                 (\<lambda>monikerName. ret (case monikerName of
                     None \<Rightarrow> None
                   | Some n \<Rightarrow> Some (createMonikerIdentifier host monikerPath (Some n)))))
       (\<lambda>monikerIdentifer. case monikerIdentifer of
          None \<Rightarrow> ret ()
        | Some identifier \<Rightarrow>
            lift (addMoniker result (if externalLibrary then import_kind else export_kind) identifier))"

definition getIdentifierInformation :: "'d LanguageService \<Rightarrow> Symbol \<Rightarrow> Node
    \<Rightarrow> 'w \<Rightarrow> (Node \<times> string) option Outcome \<times> 'w" where
  "getIdentifierInformation host symbol declaration =
     (if isNamedDeclaration host declaration
      then (case node_name host declaration of
              None \<Rightarrow> throw TypeError
            | Some name \<Rightarrow> ret (Some (name, node_text host name)))
      else if isValueModule (typeChecker host) symbol \<and> isSourceFile declaration
      then ret (Some (declaration, []))
      else ret None)"

definition getHover :: "'d LanguageService \<Rightarrow> Node \<Rightarrow> SourceFile \<Rightarrow> Hover option" where
  "getHover host node sourceFile = quickInfo host (fileName sourceFile) (node_start host node)"

text \<open>
  The loop of \<open>getOrCreateSymbolData\<close> over the declarations: the definition range of a
  declaration is built, added to its document, added to the symbol and recorded; the
  first hover found is added. The local variable \<open>hover\<close> is carried by the loop.
\<close>

definition add_declaration :: "'d LanguageService \<Rightarrow> Symbol \<Rightarrow> SymbolRef \<Rightarrow> Node \<Rightarrow> Hover option
    \<Rightarrow> 'd Visitor \<Rightarrow> Hover option Outcome \<times> 'd Visitor" where
  "add_declaration host symbol result declaration hover =
     (let sourceFile = node_sourceFile host declaration in
      seq (getIdentifierInformation host symbol declaration)
        (\<lambda>information. case information of
           None \<Rightarrow> ret hover
         | Some (identifierNode, identifierText) \<Rightarrow>
             seq (Visitor_getOrCreateDocumentData host sourceFile)
               (\<lambda>documentData.
             seq (\<lambda>v. case fresh v of (i, v1) \<Rightarrow>
                    (let definition = range_vertex i (Converter_rangeFromNode host sourceFile identifierNode)
                                        (definition_tag identifierText)
                     in (Return definition, DocumentData_addRange documentData definition v1)))
               (\<lambda>definition.
             seq (addDefinition result sourceFile definition)
               (\<lambda>u.
             seq (lift (recordDefinitionInfo result (createDefinitionInfo host sourceFile identifierNode)))
               (\<lambda>u.
                  if hover = None \<and> isNamedDeclaration host declaration
                  then (case getHover host identifierNode sourceFile of
                          None \<Rightarrow> ret None
                        | Some h \<Rightarrow> seq (lift (addHover result h)) (\<lambda>u. ret (Some h)))
                  else ret hover))))))"

text \<open>
  \<open>Visitor.getOrCreateSymbolData\<close> and the \<open>resolve\<close> methods of the four resolvers, which
  call it for the aliased symbol, the base members and the elements of a union or
  intersection. The first argument bounds the depth of the calls; running out of it is
  the RangeError of the call stack.
\<close>

fun Visitor_getOrCreateSymbolData :: "nat \<Rightarrow> 'd LanguageService \<Rightarrow> Symbol \<Rightarrow> Node option
      \<Rightarrow> 'd Visitor \<Rightarrow> SymbolRef Outcome \<times> 'd Visitor"
  and resolve :: "nat \<Rightarrow> 'd LanguageService \<Rightarrow> Resolver \<Rightarrow> SourceFile option \<Rightarrow> string \<Rightarrow> Symbol
      \<Rightarrow> Node option \<Rightarrow> Node option \<Rightarrow> 'd Visitor \<Rightarrow> SymbolRef Outcome \<times> 'd Visitor" where
  "Visitor_getOrCreateSymbolData 0 host symbol location = throw StackOverflow"
| "Visitor_getOrCreateSymbolData (Suc depth) host symbol location =
     (let symbolId = createSymbolKey (typeChecker host) symbol in
      seq (getSymbolData symbolId)
        (\<lambda>found. case found of
           Some h \<Rightarrow> ret h
         | None \<Rightarrow>
             (let resolver = getResolver (typeChecker host) symbol in
              seq (resolveEmittingNode depth host symbol)
                (\<lambda>scope.
              seq (getDeclarationNodes resolver (typeChecker host) symbol location)
                (\<lambda>decls.
              seq (getSourceFiles resolver host symbol location)
                (\<lambda>sourceFiles.
                   if requiresSourceFile resolver \<and> length sourceFiles = 0
                   then throw ResolverRequiresSourceFile
                   else
              seq (create_documents host sourceFiles)
                (\<lambda>(monikerPath, externalLibrary).
              seq (getOrCreateSymbolData symbolId
                     (if requiresSourceFile resolver
                      then seq (getPartitionScope sourceFiles)
                             (\<lambda>sourceFile. resolve depth host resolver (Some sourceFile) symbolId
                                               symbol location scope)
                      else resolve depth host resolver None symbolId symbol location scope))
                (\<lambda>result.
                   case decls of
                     None \<Rightarrow> ret result
                   | Some ds \<Rightarrow>
                       if length ds = 0 then ret result
                       else
              seq (add_moniker depth host symbol monikerPath externalLibrary result)
                (\<lambda>u.
              seq (foldM ds (add_declaration host symbol result) None)
                (\<lambda>hover. ret result))))))))))"
| "resolve 0 host resolver sourceFile symbolId symbol location scope = throw StackOverflow"
| "resolve (Suc depth) host resolver sourceFile symbolId symbol location scope =
     (case resolver of
        StandardResolver \<Rightarrow> construct symbolId scope Standard
      | TypeAliasResolver \<Rightarrow>
          (case getAliasedSymbol (typeChecker host) symbol of
             Some aliased \<Rightarrow>
               seq (Visitor_getOrCreateSymbolData depth host aliased None)
                 (\<lambda>aliasedSymbolData.
                    construct symbolId scope
                      (Aliased aliasedSymbolData
                         (getName (typeChecker host) symbol \<noteq> getName (typeChecker host) aliased)))
           | None \<Rightarrow> construct symbolId None Standard)
      | MethodResolver \<Rightarrow>
          (case getSymbolParent (typeChecker host) symbol of
             None \<Rightarrow> construct symbolId scope (Method sourceFile None)
           | Some container \<Rightarrow>
               seq (on_symbols (findBaseMembers depth (typeChecker host) container
                                  (getName (typeChecker host) symbol)))
                 (\<lambda>baseMembers v.
                    (let members_found = (case baseMembers of
                                            None \<Rightarrow> []
                                          | Some a \<Rightarrow> arrays (symbols v) a)
                     in if baseMembers = None \<or> length members_found = 0
                        then construct symbolId scope (Method sourceFile None) v
                        else seq (mapM members_found
                                    (\<lambda>member. Visitor_getOrCreateSymbolData depth host member None))
                               (\<lambda>baseSymbolData.
                                  construct symbolId scope (Method sourceFile (Some baseSymbolData)))
                               v)))
      | TransientResolver \<Rightarrow>
          (case location of
             None \<Rightarrow> throw TransientNeedsDeclaration
           | Some l \<Rightarrow>
               (case unionOrIntersectionTypes (typeChecker host) symbol l of
                  None \<Rightarrow> construct symbolId None Standard
                | Some types \<Rightarrow>
                    if length types > 0
                    then seq (mapM (concat (map (\<lambda>t. case t of None \<Rightarrow> [] | Some s \<Rightarrow> [s]) types))
                                (\<lambda>s. Visitor_getOrCreateSymbolData depth host s None))
                           (\<lambda>datas. construct symbolId None (UnionOrIntersection sourceFile datas))
                    else construct symbolId None Standard)))"
subsection \<open>The visit of a program\<close>

definition currentDocumentData :: "'d Visitor \<Rightarrow> DocumentRef Outcome \<times> 'd Visitor" where
  "currentDocumentData v =
     (case v_currentDocumentData v of
        None \<Rightarrow> (Throw NoCurrentDocumentPartition, v)
      | Some documentData \<Rightarrow> (Return documentData, v))"

text \<open>\<open>this.recordDocumentSymbol[this.recordDocumentSymbol.length - 1]\<close>: undefined, which
  counts as false, for the empty array.\<close>

definition currentRecordDocumentSymbol :: "'d Visitor \<Rightarrow> bool" where
  "currentRecordDocumentSymbol v =
     (if recordDocumentSymbol v = [] then False else last (recordDocumentSymbol v))"

text \<open>\<open>this.symbolContainer.pop()\<close>: the entry leaves the stack as a child of the entry below.\<close>

definition pop_symbolContainer :: "'d Visitor \<Rightarrow> 'd Visitor" where
  "pop_symbolContainer v =
     (case rev (symbolContainer v) of
        [] \<Rightarrow> v
      | [popped] \<Rightarrow> v\<lparr>symbolContainer := []\<rparr>
      | popped # parent # others \<Rightarrow>
          v\<lparr>symbolContainer :=
              rev others @ [(fst parent, snd parent @ [DocumentSymbol (fst popped) (snd popped)])]\<rparr>)"

definition visitSourceFile :: "'d LanguageService \<Rightarrow> SourceFile \<Rightarrow> 'd Visitor \<Rightarrow> bool Outcome \<times> 'd Visitor" where
  "visitSourceFile host sourceFile v =
     (if isFullContentIgnored sourceFile then (Return False, v)
      else seq (Visitor_getOrCreateDocumentData host sourceFile)
             (\<lambda>documentData v1.
                (Return True,
                 v1\<lparr>v_currentDocumentData := Some documentData,
                    symbolContainer := symbolContainer v1
                       @ [(document_id (dd_document (documentHeap v1 documentData)), [])],
                    recordDocumentSymbol := recordDocumentSymbol v1 @ [True]\<rparr>))
             (v\<lparr>currentSourceFile := Some sourceFile\<rparr>))"

text \<open>
  \<open>endVisitSourceFile\<close>. The test \<open>ts.textSpanEnd.length > 0\<close> asks for the number of
  parameters of the function \<open>ts.textSpanEnd\<close>, which is one: the folding ranges are always
  computed.
\<close>

definition endVisitSourceFile :: "'d LanguageService \<Rightarrow> SourceFile \<Rightarrow> 'd Visitor \<Rightarrow> unit Outcome \<times> 'd Visitor" where
  "endVisitSourceFile host sourceFile v =
     (if isFullContentIgnored sourceFile then (Return (), v)
      else seq currentDocumentData
             (\<lambda>documentData v0.
                (let diagnostics = syntacticDiagnostics host sourceFile
                                     @ map snd (filter fst (semanticDiagnostics host sourceFile));
                     v1 = (if length diagnostics > 0
                           then DocumentData_addDiagnostics documentData diagnostics v0 else v0);
                     foldingRanges = outliningSpans host (fileName sourceFile);
                     v2 = (if length foldingRanges > 0
                           then DocumentData_addFoldingRanges documentData foldingRanges v1 else v1)
                 in if symbolContainer v2 = [] then (Throw TypeError, v2)
                    else (let values = snd (last (symbolContainer v2));
                              v3 = v2\<lparr>symbolContainer := butlast (symbolContainer v2)\<rparr>;
                              v4 = (if length values > 0
                                    then DocumentData_addDocumentSymbols documentData values v3 else v3);
                              v5 = v4\<lparr>recordDocumentSymbol := butlast (recordDocumentSymbol v4),
                                      currentSourceFile := None,
                                      v_currentDocumentData := None\<rparr>
                          in seq (documemntProcessed (fileName sourceFile))
                               (\<lambda>u v6. if length (symbolContainer v6) \<noteq> 0
                                        then (Throw UnbalancedBeginEnd, v6)
                                        else (Return (), v6)) v5))) v)"

definition addDocumentSymbol :: "nat \<Rightarrow> 'd LanguageService \<Rightarrow> Node \<Rightarrow> 'd Visitor \<Rightarrow> bool Outcome \<times> 'd Visitor" where
  "addDocumentSymbol depth host node =
     (let rangeNode = (case node_name host node of Some name \<Rightarrow> name | None \<Rightarrow> node) in
      case getSymbolAtLocation (typeChecker host) rangeNode of
        None \<Rightarrow> ret False
      | Some symbol \<Rightarrow>
          (case getDeclarations (typeChecker host) symbol of
             None \<Rightarrow> ret False
           | Some decls \<Rightarrow>
               if length decls = 0 then ret False
               else seq (Visitor_getOrCreateSymbolData depth host symbol (Some rangeNode))
                      (\<lambda>symbolData v.
                         case currentSourceFile v of
                           None \<Rightarrow> (Throw TypeError, v)
                         | Some sourceFile \<Rightarrow>
                             seq (findDefinition depth symbolData sourceFile
                                    (Converter_rangeFromNode host sourceFile rangeNode))
                               (\<lambda>definition v1.
                                  case definition of
                                    None \<Rightarrow> (Return False, v1)
                                  | Some d \<Rightarrow>
                                      if symbolContainer v1 = [] then (Throw TypeError, v1)
                                      else (Return True,
                                            v1\<lparr>symbolContainer :=
                                                 symbolContainer v1 @ [(range_id d, [])]\<rparr>)) v)))"

definition visitDeclaration :: "nat \<Rightarrow> 'd LanguageService \<Rightarrow> Node \<Rightarrow> bool \<Rightarrow> 'd Visitor \<Rightarrow> unit Outcome \<times> 'd Visitor" where
  "visitDeclaration depth host node isContainer v =
     seq (if currentRecordDocumentSymbol v \<and> isContainer
          then addDocumentSymbol depth host node
          else ret False)
       (\<lambda>didRecord. lift (\<lambda>v1. v1\<lparr>recordDocumentSymbol := recordDocumentSymbol v1 @ [didRecord]\<rparr>)) v"

definition endVisitDeclaration :: "'d Visitor \<Rightarrow> unit Outcome \<times> 'd Visitor" where
  "endVisitDeclaration v =
     (let didRecord = currentRecordDocumentSymbol v;
          v1 = v\<lparr>recordDocumentSymbol := butlast (recordDocumentSymbol v)\<rparr>
      in (Return (), if didRecord then pop_symbolContainer v1 else v1))"

definition visitIdentifier :: "nat \<Rightarrow> 'd LanguageService \<Rightarrow> Node \<Rightarrow> 'd Visitor \<Rightarrow> unit Outcome \<times> 'd Visitor" where
  "visitIdentifier depth host node =
     (case getSymbolAtLocation (typeChecker host) node of
        None \<Rightarrow> ret ()
      | Some symbol \<Rightarrow>
          seq (Visitor_getOrCreateSymbolData depth host symbol (Some node))
            (\<lambda>symbolData v.
               case currentSourceFile v of
                 None \<Rightarrow> (Throw TypeError, v)
               | Some sourceFile \<Rightarrow>
                   if hasDefinitionInfo (definitionInfo_equals host) symbolData
                        (createDefinitionInfo host sourceFile node) v
                   then (Return (), v)
                   else (case fresh v of (i, v1) \<Rightarrow>
                           (let reference = range_vertex i (Converter_rangeFromNode host sourceFile node)
                                              (reference_tag (node_text host node))
                            in seq currentDocumentData
                                 (\<lambda>documentData.
                                    seq (lift (DocumentData_addRange documentData reference))
                                      (\<lambda>u. addReference symbolData sourceFile (a_range reference)
                                              (Some references))) v1))))"

text \<open>
  \<open>doVisit\<close>: the children are visited if \<open>visit\<close> answers true; then the DataManager is told
  that the node is processed, whatever the answer was; then \<open>endVisit\<close> runs.
\<close>

definition doVisit :: "('v \<Rightarrow> bool Outcome \<times> 'v) \<Rightarrow> ('v \<Rightarrow> unit Outcome \<times> 'v) \<Rightarrow> ('v \<Rightarrow> unit Outcome \<times> 'v)
    \<Rightarrow> ('v \<Rightarrow> unit Outcome \<times> 'v) \<Rightarrow> 'v \<Rightarrow> unit Outcome \<times> 'v" where
  "doVisit visit_node endVisit forEachChild nodeProcessed_node =
     seq visit_node
       (\<lambda>visitChildren. seq (if visitChildren then forEachChild else ret ())
       (\<lambda>u. seq nodeProcessed_node
       (\<lambda>u. endVisit)))"

text \<open>
  \<open>visit\<close>, the switch on the kind of the node. The case of a class expression has no
  \<open>break\<close>: after \<open>doVisit\<close> it runs the case of an identifier on the same node.
  \<open>visit_children\<close> is \<open>node.forEachChild(child => this.visit(child))\<close>.
\<close>

fun isContainerKind :: "SyntaxKind \<Rightarrow> bool" where
  "isContainerKind Parameter = False"
| "isContainerKind TypeParameter = False"
| "isContainerKind kind = True"

fun visit :: "nat \<Rightarrow> 'd LanguageService \<Rightarrow> Tree \<Rightarrow> 'd Visitor \<Rightarrow> unit Outcome \<times> 'd Visitor"
  and visit_children :: "nat \<Rightarrow> 'd LanguageService \<Rightarrow> Tree list \<Rightarrow> 'd Visitor \<Rightarrow> unit Outcome \<times> 'd Visitor" where
  "visit depth host (SourceFileTree sourceFile children) =
     doVisit (visitSourceFile host sourceFile) (endVisitSourceFile host sourceFile)
       (visit_children depth host children) (DataManager_nodeProcessed (SourceFileNode sourceFile))"
| "visit depth host (NodeTree n kind children) =
     (if kind = Identifier then visitIdentifier depth host (OtherNode n)
      else if kind = OtherKind then visit_children depth host children
      else if kind = ClassExpression
      then seq (doVisit (ret True) (ret ()) (visit_children depth host children)
                  (DataManager_nodeProcessed (OtherNode n)))
             (\<lambda>u. visitIdentifier depth host (OtherNode n))
      else doVisit (seq (visitDeclaration depth host (OtherNode n) (isContainerKind kind))
                      (\<lambda>u. ret True))
             endVisitDeclaration
             (visit_children depth host children) (DataManager_nodeProcessed (OtherNode n)))"
| "visit_children depth host [] = ret ()"
| "visit_children depth host (child # children) =
     seq (visit depth host child) (\<lambda>u. visit_children depth host children)"

text \<open>\<open>visitProgram\<close>: the first pass collects the external library imports, the second
  visits every source file.\<close>

definition collect_externalLibraryImports :: "'d LanguageService \<Rightarrow> 'd Visitor \<Rightarrow> 'd Visitor" where
  "collect_externalLibraryImports host v =
     fold (\<lambda>entry v1.
             case resolvedModules host (fst entry) of
               None \<Rightarrow> v1
             | Some modules \<Rightarrow>
                 fold (\<lambda>resolvedModule v2.
                         case resolvedModule of
                           None \<Rightarrow> v2
                         | Some m \<Rightarrow>
                             if isExternalLibraryImport m
                                \<and> map_of (externalLibraryImports v2) (resolvedFileName m) = None
                             then v2\<lparr>externalLibraryImports :=
                                       AList.update (resolvedFileName m) m (externalLibraryImports v2)\<rparr>
                             else v2) modules v1)
          (program_sourceFiles host) v"

definition visitProgram :: "nat \<Rightarrow> 'd LanguageService \<Rightarrow> 'd Visitor \<Rightarrow> ProjectInfo Outcome \<times> 'd Visitor" where
  "visitProgram depth host v =
     seq (forEach (program_sourceFiles host)
            (\<lambda>entry. visit depth host (SourceFileTree (fst entry) (snd entry))))
       (\<lambda>u v1. (Return \<lparr>info_rootDir = rootDir v1, info_outDir = outDir v1\<rparr>, v1))
       (collect_externalLibraryImports host v)"

definition endVisitProgram :: "'d Visitor \<Rightarrow> unit Outcome \<times> 'd Visitor" where
  "endVisitProgram = projectProcessed"

text \<open>The exported function \<open>lsif\<close>. The emitter's output is \<open>emitted\<close> of the final state.\<close>

definition lsif :: "nat \<Rightarrow> 'd LanguageService \<Rightarrow> Options \<Rightarrow> ProjectInfo list \<Rightarrow> string option
    \<Rightarrow> ProjectInfo Outcome \<times> 'd Visitor" where
  "lsif depth languageService options dependsOn tsConfigFile =
     seq (visitProgram depth languageService)
       (\<lambda>result. seq endVisitProgram (\<lambda>u. ret result))
       (new_Visitor languageService options dependsOn tsConfigFile)"

subsection \<open>A small run, used to evaluate the model\<close>

text \<open>
  The source file \<open>a.ts\<close>; the world after the DataManager was constructed for the project
  with id 1 and the DocumentData of \<open>a.ts\<close> (document id 4) was created; and that world
  after a StandardSymbolData with the scope node 7 was constructed.
\<close>

definition example_file :: SourceFile where
  "example_file = \<lparr>node_ref = 1, fileName = ''a.ts'', isDeclarationFile = False\<rparr>"

definition example_document :: Document where
  "example_document = \<lparr>document_id = 4, document_uri = ''a.ts''\<rparr>"

definition example_World :: "nat World" where
  "example_World =
     snd (getOrCreateDocumentData ''a.ts'' example_document None False
            (new_DataManager \<lparr>project_id = 1\<rparr> (blank_World\<lparr>nextId := 5\<rparr>)))"

definition example_scoped_World :: "nat World" where
  "example_scoped_World = snd (new_SymbolData ''s'' (Some (OtherNode 7)) Standard example_World)"

text \<open>The example with the partition of \<open>a.ts\<close> constructed for the scoped symbol.\<close>

definition example_partition_World :: "nat World" where
  "example_partition_World = snd (getOrCreatePartition 0 example_file example_scoped_World)"






text \<open>
  Four classes for the base-member cache: \<open>S\<close> (symbol 0) extends \<open>B1\<close> (1) and implements
  \<open>B2\<close> (2); \<open>B1\<close> extends \<open>A\<close> (3). \<open>A\<close> declares the member \<open>m\<close> (symbol 13) and \<open>B2\<close> declares
  a member \<open>m\<close> (symbol 12); \<open>S\<close> and \<open>B1\<close> have member tables without \<open>m\<close>.
\<close>

definition example_TypeChecker :: TypeChecker where
  "example_TypeChecker =
     \<lparr>createSymbolKey = (\<lambda>s. if s = 0 then ''S'' else if s = 1 then ''B1''
                              else if s = 2 then ''B2'' else if s = 3 then ''A'' else ''m''),
      isTypeLiteral = (\<lambda>s. False), isInterface = (\<lambda>s. False), isClass = (\<lambda>s. s < 4),
      classHeritage = (\<lambda>s. if s = 0 then Some [Some 1, Some 2]
                            else if s = 1 then Some [Some 3] else Some []),
      interfaceBases = (\<lambda>s. None),
      members = (\<lambda>s. if s = 2 then Some (\<lambda>n. if n = ''m'' then Some 12 else None)
                      else if s = 3 then Some (\<lambda>n. if n = ''m'' then Some 13 else None)
                      else Some (\<lambda>n. None)),
      isSourceFileSymbol = (\<lambda>s. False), getSymbolParent = (\<lambda>s. None), getName = (\<lambda>s. ''m''),
      exports = (\<lambda>s. None), isAliasSymbol = (\<lambda>s. False), isMethodSymbol = (\<lambda>s. 4 \<le> s),
      isTransient = (\<lambda>s. False), isValueModule = (\<lambda>s. False), getDeclarations = (\<lambda>s. None),
      getAliasedSymbol = (\<lambda>s. None), getSymbolAtLocation = (\<lambda>n. None),
      unionOrIntersectionTypes = (\<lambda>s n. None)\<rparr>"

text \<open>What a call of \<open>findBaseMembers\<close> returns: the elements of the returned array when the
  call returns, or undefined.\<close>

definition returned_members :: "ArrayRef option Outcome \<times> Symbols \<Rightarrow> Symbol list option Outcome" where
  "returned_members r =
     (case fst r of
        Throw e \<Rightarrow> Throw e
      | Return a \<Rightarrow> Return (map_option (arrays (snd r)) a))"







text \<open>
  Calls that follow the creation of the DocumentData of \<open>a.ts\<close> in the example: the builder
  takes an id for the document of \<open>b.ts\<close>, the DocumentData of \<open>b.ts\<close> is created, and \<open>b.ts\<close>
  is processed.
\<close>

definition example_calls :: "nat World DataManagerCall list" where
  "example_calls =
     [OtherCall (\<lambda>w. snd (fresh w)),
      GetOrCreateDocumentData ''b.ts'' \<lparr>document_id = 7, document_uri = ''b.ts''\<rparr> None False,
      DocumemntProcessed ''b.ts'']"

section \<open>Properties\<close>

subsection \<open>Sequencing\<close>

lemma seq_Return: "m w = (Return x, w1) \<Longrightarrow> seq m f w = f x w1"
  by (simp add: seq_def)

lemma seq_Throw: "m w = (Throw e, w1) \<Longrightarrow> seq m f w = (Throw e, w1)"
  by (simp add: seq_def)

lemma seq_ret: "seq (ret x) f w = f x w"
  by (simp add: seq_def ret_def)

lemma seq_lift: "seq (lift g) f w = f () (g w)"
  by (simp add: seq_def lift_def)


subsection \<open>The declaration-info memory\<close>

text \<open>The recorded infos of a SymbolData, in the order of recording.\<close>

fun recorded :: "'d DeclarationInfo \<Rightarrow> 'd list" where
  "recorded info_undefined = []"
| "recorded (info_single x) = [x]"
| "recorded (info_array xs) = xs"

fun isUnionOrIntersection :: "Variant \<Rightarrow> bool" where
  "isUnionOrIntersection (UnionOrIntersection sf elements) = True"
| "isUnionOrIntersection v = False"

lemma array_has_iff: "array_has equals xs info \<longleftrightarrow> (\<exists>x\<in>set xs. equals x info)"
  by (induction xs) auto

lemma SymbolData_hasDefinitionInfo_iff:
  "SymbolData_hasDefinitionInfo equals info sd
     \<longleftrightarrow> (\<exists>x\<in>set (recorded (sd_declarationInfo sd)). equals x info)"
  by (cases "sd_declarationInfo sd") (simp_all add: SymbolData_hasDefinitionInfo_def array_has_iff)

lemma recorded_recordDefinitionInfo:
  "recorded (sd_declarationInfo (SymbolData_recordDefinitionInfo info sd))
     = recorded (sd_declarationInfo sd) @ [info]"
  by (cases "sd_declarationInfo sd") (simp_all add: SymbolData_recordDefinitionInfo_def)

lemma sd_variant_recordDefinitionInfo:
  "sd_variant (SymbolData_recordDefinitionInfo info sd) = sd_variant sd"
  by (cases "sd_declarationInfo sd") (simp_all add: SymbolData_recordDefinitionInfo_def)

lemma recordDefinitionInfo_union:
  "isUnionOrIntersection (sd_variant (symbolHeap w h)) \<Longrightarrow> recordDefinitionInfo h info w = w"
  by (cases "sd_variant (symbolHeap w h)") (simp_all add: recordDefinitionInfo_def)

lemma recordDefinitionInfo_other:
  "\<not> isUnionOrIntersection (sd_variant (symbolHeap w h))
   \<Longrightarrow> recordDefinitionInfo h info w = update_symbol h (SymbolData_recordDefinitionInfo info) w"
  by (cases "sd_variant (symbolHeap w h)") (simp_all add: recordDefinitionInfo_def)

lemma fold_recordDefinitionInfo_union:
  "isUnionOrIntersection (sd_variant (symbolHeap w h))
   \<Longrightarrow> fold (recordDefinitionInfo h) infos w = w"
  by (induction infos) (simp_all add: recordDefinitionInfo_union)

lemma fold_recordDefinitionInfo_other:
  "\<not> isUnionOrIntersection (sd_variant (symbolHeap w h))
   \<Longrightarrow> \<not> isUnionOrIntersection (sd_variant (symbolHeap (fold (recordDefinitionInfo h) infos w) h))
     \<and> recorded (sd_declarationInfo (symbolHeap (fold (recordDefinitionInfo h) infos w) h))
         = recorded (sd_declarationInfo (symbolHeap w h)) @ infos"
proof (induction infos arbitrary: w)
  case Nil
  then show ?case by simp
next
  case (Cons i infos)
  let ?w1 = "recordDefinitionInfo h i w"
  have w1: "?w1 = update_symbol h (SymbolData_recordDefinitionInfo i) w"
    using Cons.prems by (rule recordDefinitionInfo_other)
  have v: "\<not> isUnionOrIntersection (sd_variant (symbolHeap ?w1 h))"
    using Cons.prems by (simp add: w1 update_symbol_def sd_variant_recordDefinitionInfo)
  have r: "recorded (sd_declarationInfo (symbolHeap ?w1 h))
             = recorded (sd_declarationInfo (symbolHeap w h)) @ [i]"
    by (simp add: w1 update_symbol_def recorded_recordDefinitionInfo)
  from Cons.IH [OF v] r show ?case by simp
qed

text \<open>
  C8 (as stated, for every SymbolData): fails for a UnionOrIntersectionSymbolData, whose
  \<open>recordDefinitionInfo\<close> has an empty body. On a new one, after recording the info 7,
  \<open>hasDefinitionInfo(7)\<close> is false although 7 equals the recorded info.
\<close>

theorem hasDefinitionInfo_union_counterexample:
  "fst (new_SymbolData ''u'' None (UnionOrIntersection None []) blank_World) = 0
   \<and> hasDefinitionInfo (=) 0 (7::nat)
        (fold (recordDefinitionInfo 0) [7]
           (snd (new_SymbolData ''u'' None (UnionOrIntersection None []) blank_World))) = False"
  by (simp add: new_SymbolData_def fresh_def blank_World_def recordDefinitionInfo_def
      hasDefinitionInfo_def SymbolData_hasDefinitionInfo_def)

text \<open>
  C8 (amended): for a SymbolData that is not a UnionOrIntersectionSymbolData, after the
  calls \<open>recordDefinitionInfo(i1) ... recordDefinitionInfo(in)\<close> the call \<open>hasDefinitionInfo(j)\<close>
  returns true exactly when it did before or \<open>equals(ik, j)\<close> holds for some k; with no
  recorded info it returns false. On a UnionOrIntersectionSymbolData the calls change
  nothing.
\<close>

theorem hasDefinitionInfo_after_recording:
  "(\<not> isUnionOrIntersection (sd_variant (symbolHeap w h)) \<longrightarrow>
      (hasDefinitionInfo equals h j (fold (recordDefinitionInfo h) infos w)
         \<longleftrightarrow> hasDefinitionInfo equals h j w \<or> (\<exists>i\<in>set infos. equals i j)))
   \<and> (isUnionOrIntersection (sd_variant (symbolHeap w h)) \<longrightarrow>
        fold (recordDefinitionInfo h) infos w = w)
   \<and> (sd_declarationInfo (symbolHeap w h) = info_undefined \<longrightarrow>
        \<not> hasDefinitionInfo equals h j w)"
proof (intro conjI impI)
  assume v: "\<not> isUnionOrIntersection (sd_variant (symbolHeap w h))"
  show "hasDefinitionInfo equals h j (fold (recordDefinitionInfo h) infos w)
          \<longleftrightarrow> hasDefinitionInfo equals h j w \<or> (\<exists>i\<in>set infos. equals i j)"
    using fold_recordDefinitionInfo_other [OF v, of infos]
    by (auto simp: hasDefinitionInfo_def SymbolData_hasDefinitionInfo_iff)
next
  assume "isUnionOrIntersection (sd_variant (symbolHeap w h))"
  then show "fold (recordDefinitionInfo h) infos w = w"
    by (rule fold_recordDefinitionInfo_union)
next
  assume "sd_declarationInfo (symbolHeap w h) = info_undefined"
  then show "\<not> hasDefinitionInfo equals h j w"
    by (simp add: hasDefinitionInfo_def SymbolData_hasDefinitionInfo_def)
qed

theorem hasDefinitionInfo_after_recording_witness:
  "hasDefinitionInfo (=) 0 (2::nat)
     (fold (recordDefinitionInfo 0) [1, 2, 3] (snd (new_SymbolData ''s'' None Standard blank_World)))
   \<and> \<not> hasDefinitionInfo (=) 0 (4::nat)
     (fold (recordDefinitionInfo 0) [1, 2, 3] (snd (new_SymbolData ''s'' None Standard blank_World)))
   \<and> \<not> hasDefinitionInfo (=) 0 (2::nat) (snd (new_SymbolData ''s'' None Standard blank_World))
   \<and> fold (recordDefinitionInfo 0) [1, 2, 3::nat]
        (snd (new_SymbolData ''u'' None (UnionOrIntersection None []) blank_World))
      = snd (new_SymbolData ''u'' None (UnionOrIntersection None []) blank_World)"
proof -
  let ?s = "snd (new_SymbolData ''s'' None Standard blank_World) :: nat World"
  let ?u = "snd (new_SymbolData ''u'' None (UnionOrIntersection None []) blank_World) :: nat World"
  have s: "\<not> isUnionOrIntersection (sd_variant (symbolHeap ?s 0))"
    and s0: "sd_declarationInfo (symbolHeap ?s 0) = info_undefined"
    and u: "isUnionOrIntersection (sd_variant (symbolHeap ?u 0))"
    by (simp_all add: new_SymbolData_def fresh_def blank_World_def)
  from hasDefinitionInfo_after_recording [of ?s 0 "(=)" 2 "[1, 2, 3]"]
       hasDefinitionInfo_after_recording [of ?s 0 "(=)" 4 "[1, 2, 3]"]
       hasDefinitionInfo_after_recording [of ?u 0 "(=)" 2 "[1, 2, 3]"] s s0 u
  show ?thesis by simp
qed

subsection \<open>SymbolDataPartition.addReference without a property\<close>

text \<open>
  C9: \<open>addReference\<close> with a value labelled 'range' and no property leaves the partition as
  it is: the reference-range buckets and the forwarded results are unchanged, and \<open>end\<close>
  does on the partition after the call what it does on the partition before it (the
  same outcome, the same emitted elements, the same world). The method has no access to
  the emitter.
\<close>

theorem addReference_range_without_property:
  "label v = ''range'' \<Longrightarrow>
     SymbolDataPartition_addReference v None p = p
     \<and> sp_referenceRanges (SymbolDataPartition_addReference v None p) = sp_referenceRanges p
     \<and> sp_referenceResults (SymbolDataPartition_addReference v None p) = sp_referenceResults p
     \<and> SymbolDataPartition_end (SymbolDataPartition_addReference v None p) w
         = SymbolDataPartition_end p w"
  by (cases v) (simp_all add: SymbolDataPartition_addReference_def)

theorem addReference_range_without_property_witness:
  "label (a_range \<lparr>range_start = \<lparr>line = 1, character = 2\<rparr>, range_end = \<lparr>line = 1, character = 5\<rparr>,
                   range_id = 9, range_tag = reference_tag ''x''\<rparr>) = ''range''
   \<and> SymbolDataPartition_addReference
        (a_range \<lparr>range_start = \<lparr>line = 1, character = 2\<rparr>, range_end = \<lparr>line = 1, character = 5\<rparr>,
                  range_id = 9, range_tag = reference_tag ''x''\<rparr>) None
        (new_SymbolDataPartition 0 \<lparr>document_id = 3, document_uri = ''a.ts''\<rparr>)
      = new_SymbolDataPartition 0 \<lparr>document_id = 3, document_uri = ''a.ts''\<rparr>"
  using addReference_range_without_property
    [of "a_range \<lparr>range_start = \<lparr>line = 1, character = 2\<rparr>, range_end = \<lparr>line = 1, character = 5\<rparr>,
                  range_id = 9, range_tag = reference_tag ''x''\<rparr>"
        "new_SymbolDataPartition 0 \<lparr>document_id = 3, document_uri = ''a.ts''\<rparr>"
        "blank_World :: nat World"]
  by simp

subsection \<open>ProjectData: the batches of contains edges\<close>

lemma ProjectData_addDocument_buffer:
  "length (pd_documents (projectData w)) < 32 \<Longrightarrow>
     ProjectData_addDocument d w
       = w\<lparr>projectData := (projectData w)\<lparr>pd_documents := pd_documents (projectData w) @ [d]\<rparr>\<rparr>"
  by (simp add: ProjectData_addDocument_def Let_def)

lemma ProjectData_addDocument_flush:
  "length (pd_documents (projectData w)) = 32 \<Longrightarrow>
     emitted (ProjectData_addDocument d w)
       = emitted w @ [Edg \<lparr>edge_id = nextId w, edge_label = contains_edge,
                            outV = project_id (pd_project (projectData w)),
                            inVs = map document_id (pd_documents (projectData w) @ [d]),
                            edge_document = None, edge_property = None\<rparr>]
     \<and> pd_documents (projectData (ProjectData_addDocument d w)) = []"
  by (simp add: ProjectData_addDocument_def Let_def emit_edge_def mk_edge_def fresh_def emit_def)

lemma fold_ProjectData_addDocument_buffer:
  "length (pd_documents (projectData w)) + length ds \<le> 32 \<Longrightarrow>
     fold ProjectData_addDocument ds w
       = w\<lparr>projectData := (projectData w)\<lparr>pd_documents := pd_documents (projectData w) @ ds\<rparr>\<rparr>"
proof (induction ds arbitrary: w)
  case Nil
  then show ?case by simp
next
  case (Cons d ds)
  have "length (pd_documents (projectData w)) < 32" using Cons.prems by simp
  then have step: "ProjectData_addDocument d w
      = w\<lparr>projectData := (projectData w)\<lparr>pd_documents := pd_documents (projectData w) @ [d]\<rparr>\<rparr>"
    by (rule ProjectData_addDocument_buffer)
  show ?case using Cons.prems by (simp add: step Cons.IH)
qed

text \<open>
  The 33rd \<open>addDocument\<close> after a flush: the buffer holds 32 documents, the new one is
  pushed, and the test \<open>this.documents.length > 32\<close> sends all 33 in one contains edge.
\<close>

lemma ProjectData_addDocument_33:
  assumes "pd_documents (projectData w) = []" and "length ds = 32"
  shows "emitted (fold ProjectData_addDocument (ds @ [d]) w)
           = emitted w @ [Edg \<lparr>edge_id = nextId w, edge_label = contains_edge,
                                outV = project_id (pd_project (projectData w)),
                                inVs = map document_id (ds @ [d]),
                                edge_document = None, edge_property = None\<rparr>]"
proof -
  let ?w1 = "w\<lparr>projectData := (projectData w)\<lparr>pd_documents := pd_documents (projectData w) @ ds\<rparr>\<rparr>"
  have "fold ProjectData_addDocument ds w = ?w1"
    using assms by (intro fold_ProjectData_addDocument_buffer) simp
  moreover have "length (pd_documents (projectData ?w1)) = 32"
    using assms by simp
  ultimately show ?thesis
    using ProjectData_addDocument_flush [of ?w1 d] assms by simp
qed

text \<open>
  Every batch is bounded all the same: while the buffer holds at most 32 documents, a
  contains edge of \<open>addDocument\<close> carries exactly 33 and one of \<open>end\<close> at most 32.
\<close>

lemma ProjectData_addDocument_bound:
  assumes "length (pd_documents (projectData w)) \<le> 32"
  shows "length (pd_documents (projectData (ProjectData_addDocument d w))) \<le> 32
         \<and> (emitted (ProjectData_addDocument d w) = emitted w
            \<or> (\<exists>e. emitted (ProjectData_addDocument d w) = emitted w @ [Edg e]
                    \<and> edge_label e = contains_edge \<and> length (inVs e) = 33))"
proof (cases "length (pd_documents (projectData w)) = 32")
  case True
  then show ?thesis using ProjectData_addDocument_flush [of w d] by simp
next
  case False
  with assms have "length (pd_documents (projectData w)) < 32" by simp
  then show ?thesis by (simp add: ProjectData_addDocument_buffer)
qed

text \<open>
  C4 (the code at the failing input): a new DataManager and 33 documents with the ids
  100..132. The last element emitted is a contains edge of the project with 33 documents.
\<close>

theorem ProjectData_addDocument_batch_of_33:
  "emitted (fold ProjectData_addDocument
              (map (\<lambda>i. \<lparr>document_id = i, document_uri = ''f''\<rparr>) [100 ..< 133])
              (new_DataManager \<lparr>project_id = 1\<rparr> (blank_World\<lparr>nextId := 2\<rparr> :: nat World)))
     = [Vtx (V_project \<lparr>project_id = 1\<rparr>), Vtx (V_event 2 begin_event 1),
        Edg \<lparr>edge_id = 3, edge_label = contains_edge, outV = 1, inVs = [100 ..< 133],
             edge_document = None, edge_property = None\<rparr>]
     \<and> length [100 ..< 133 :: nat] = 33"
proof -
  let ?w = "new_DataManager \<lparr>project_id = 1\<rparr> (blank_World\<lparr>nextId := 2\<rparr> :: nat World)"
  let ?f = "\<lambda>i. \<lparr>document_id = i, document_uri = ''f''\<rparr>"
  have w: "pd_documents (projectData ?w) = []" "nextId ?w = 3"
    "project_id (pd_project (projectData ?w)) = 1"
    "emitted ?w = [Vtx (V_project \<lparr>project_id = 1\<rparr>), Vtx (V_event 2 begin_event 1)]"
    by (simp_all add: new_DataManager_def ProjectData_begin_def Let_def emit_def fresh_def
        blank_World_def)
  have split: "[100 ..< 133 :: nat] = [100 ..< 132] @ [132]"
    by (simp add: upt_rec)
  have len: "length (map ?f [100 ..< 132]) = 32"
    by simp
  have ids: "map document_id (map ?f [100 ..< 132] @ [?f 132]) = [100 ..< 133]"
    by (simp add: split comp_def)
  have docs: "map ?f [100 ..< 133] = map ?f [100 ..< 132] @ [?f 132]"
    by (simp add: split)
  have "emitted (fold ProjectData_addDocument (map ?f [100 ..< 133]) ?w)
          = emitted ?w @ [Edg \<lparr>edge_id = nextId ?w, edge_label = contains_edge,
                                 outV = project_id (pd_project (projectData ?w)),
                                 inVs = [100 ..< 133],
                                 edge_document = None, edge_property = None\<rparr>]"
    unfolding docs using ProjectData_addDocument_33 [OF w(1) len, of "?f 132"]
    unfolding ids .
  then have "emitted (fold ProjectData_addDocument (map ?f [100 ..< 133]) ?w)
          = [Vtx (V_project \<lparr>project_id = 1\<rparr>), Vtx (V_event 2 begin_event 1)]
            @ [Edg \<lparr>edge_id = 3, edge_label = contains_edge, outV = 1, inVs = [100 ..< 133],
                    edge_document = None, edge_property = None\<rparr>]"
    unfolding w .
  then show ?thesis
    by (simp only: append.simps length_upt) simp
qed

subsection \<open>Frame lemmas of the emitter and the builder\<close>

lemma emit_fields [simp]:
  "emitted (emit e w) = emitted w @ [e]"
  "nextId (emit e w) = nextId w"
  "projectData (emit e w) = projectData w"
  "documentDatas (emit e w) = documentDatas w"
  "symbolDatas (emit e w) = symbolDatas w"
  "clearOnNode (emit e w) = clearOnNode w"
  "documentHeap (emit e w) = documentHeap w"
  "documentCount (emit e w) = documentCount w"
  "symbolHeap (emit e w) = symbolHeap w"
  "symbolCount (emit e w) = symbolCount w"
  by (simp_all add: emit_def)

lemma emit_edge_fields [simp]:
  "emitted (emit_edge l out ins doc prop w)
     = emitted w @ [Edg \<lparr>edge_id = nextId w, edge_label = l, outV = out, inVs = ins,
                          edge_document = doc, edge_property = prop\<rparr>]"
  "nextId (emit_edge l out ins doc prop w) = Suc (nextId w)"
  "projectData (emit_edge l out ins doc prop w) = projectData w"
  "documentDatas (emit_edge l out ins doc prop w) = documentDatas w"
  "symbolDatas (emit_edge l out ins doc prop w) = symbolDatas w"
  "clearOnNode (emit_edge l out ins doc prop w) = clearOnNode w"
  "documentHeap (emit_edge l out ins doc prop w) = documentHeap w"
  "documentCount (emit_edge l out ins doc prop w) = documentCount w"
  "symbolHeap (emit_edge l out ins doc prop w) = symbolHeap w"
  "symbolCount (emit_edge l out ins doc prop w) = symbolCount w"
  by (simp_all add: emit_edge_def mk_edge_def fresh_def emit_def)

lemma update_symbol_fields [simp]:
  "emitted (update_symbol h f w) = emitted w"
  "nextId (update_symbol h f w) = nextId w"
  "projectData (update_symbol h f w) = projectData w"
  "documentDatas (update_symbol h f w) = documentDatas w"
  "symbolDatas (update_symbol h f w) = symbolDatas w"
  "clearOnNode (update_symbol h f w) = clearOnNode w"
  "documentHeap (update_symbol h f w) = documentHeap w"
  "documentCount (update_symbol h f w) = documentCount w"
  "symbolHeap (update_symbol h f w) = (symbolHeap w)(h := f (symbolHeap w h))"
  "symbolCount (update_symbol h f w) = symbolCount w"
  by (simp_all add: update_symbol_def)

lemma update_document_fields [simp]:
  "emitted (update_document r f w) = emitted w"
  "nextId (update_document r f w) = nextId w"
  "projectData (update_document r f w) = projectData w"
  "documentDatas (update_document r f w) = documentDatas w"
  "symbolDatas (update_document r f w) = symbolDatas w"
  "clearOnNode (update_document r f w) = clearOnNode w"
  "documentHeap (update_document r f w) = (documentHeap w)(r := f (documentHeap w r))"
  "documentCount (update_document r f w) = documentCount w"
  "symbolHeap (update_document r f w) = symbolHeap w"
  "symbolCount (update_document r f w) = symbolCount w"
  by (simp_all add: update_document_def)

lemma manageLifeCycle_fields [simp]:
  "emitted (manageLifeCycle n h w) = emitted w"
  "nextId (manageLifeCycle n h w) = nextId w"
  "projectData (manageLifeCycle n h w) = projectData w"
  "documentDatas (manageLifeCycle n h w) = documentDatas w"
  "symbolDatas (manageLifeCycle n h w) = symbolDatas w"
  "documentHeap (manageLifeCycle n h w) = documentHeap w"
  "documentCount (manageLifeCycle n h w) = documentCount w"
  "symbolHeap (manageLifeCycle n h w) = symbolHeap w"
  "symbolCount (manageLifeCycle n h w) = symbolCount w"
  by (simp_all add: manageLifeCycle_def Let_def)

lemma set_partition_fields [simp]:
  "emitted (set_partition h file slot w) = emitted w"
  "nextId (set_partition h file slot w) = nextId w"
  "projectData (set_partition h file slot w) = projectData w"
  "documentDatas (set_partition h file slot w) = documentDatas w"
  "symbolDatas (set_partition h file slot w) = symbolDatas w"
  "clearOnNode (set_partition h file slot w) = clearOnNode w"
  "documentHeap (set_partition h file slot w) = documentHeap w"
  "documentCount (set_partition h file slot w) = documentCount w"
  "symbolCount (set_partition h file slot w) = symbolCount w"
  by (simp_all add: set_partition_def)

lemma ProjectData_addDocument_fields [simp]:
  "documentDatas (ProjectData_addDocument d w) = documentDatas w"
  "symbolDatas (ProjectData_addDocument d w) = symbolDatas w"
  "clearOnNode (ProjectData_addDocument d w) = clearOnNode w"
  "documentHeap (ProjectData_addDocument d w) = documentHeap w"
  "documentCount (ProjectData_addDocument d w) = documentCount w"
  "symbolHeap (ProjectData_addDocument d w) = symbolHeap w"
  "symbolCount (ProjectData_addDocument d w) = symbolCount w"
  by (simp_all add: ProjectData_addDocument_def Let_def)

lemma DocumentData_begin_fields [simp]:
  "projectData (DocumentData_begin r w) = projectData w"
  "documentDatas (DocumentData_begin r w) = documentDatas w"
  "symbolDatas (DocumentData_begin r w) = symbolDatas w"
  "clearOnNode (DocumentData_begin r w) = clearOnNode w"
  "documentHeap (DocumentData_begin r w) = documentHeap w"
  "documentCount (DocumentData_begin r w) = documentCount w"
  "symbolHeap (DocumentData_begin r w) = symbolHeap w"
  "symbolCount (DocumentData_begin r w) = symbolCount w"
  by (simp_all add: DocumentData_begin_def Let_def fresh_def)

subsection \<open>DataManager.getOrCreateDocumentData\<close>

lemma getOrCreateDocumentData_registers:
  "getOrCreateDocumentData file d mp ext w = (Return r, w1)
   \<Longrightarrow> map_of (documentDatas w1) file = Some (Some r)"
  by (auto simp: getOrCreateDocumentData_def getDocumentData_def new_DocumentData_def Let_def
      update_conv' split: option.splits)

lemma getOrCreateDocumentData_live:
  "map_of (documentDatas w) file = Some (Some r)
   \<Longrightarrow> getOrCreateDocumentData file d mp ext w = (Return r, w)"
  by (simp add: getOrCreateDocumentData_def getDocumentData_def)

lemma getOrCreateDocumentData_creates:
  assumes "map_of (documentDatas w) file = None"
  shows "fst (getOrCreateDocumentData file d mp ext w) = Return (documentCount w)"
    and "documentHeap (snd (getOrCreateDocumentData file d mp ext w)) (documentCount w)
           = \<lparr>dd_document = d, dd_monikerPath = mp, dd_externalLibrary = ext, dd_ranges = [],
              dd_diagnostics = None, dd_foldingRanges = None, dd_documentSymbols = None\<rparr>"
    and "emitted (snd (getOrCreateDocumentData file d mp ext w))
           = emitted w @ [Vtx (V_document d), Vtx (V_event (nextId w) begin_event (document_id d))]
               @ (if length (pd_documents (projectData w)) < 32 then []
                  else [Edg \<lparr>edge_id = Suc (nextId w), edge_label = contains_edge,
                             outV = project_id (pd_project (projectData w)),
                             inVs = map document_id (pd_documents (projectData w) @ [d]),
                             edge_document = None, edge_property = None\<rparr>])"
    and "pd_documents (projectData (snd (getOrCreateDocumentData file d mp ext w)))
           = (if length (pd_documents (projectData w)) < 32
              then pd_documents (projectData w) @ [d] else [])"
  using assms
  by (simp_all add: getOrCreateDocumentData_def getDocumentData_def new_DocumentData_def Let_def
      DocumentData_begin_def ProjectData_addDocument_def fresh_def emit_def)

lemma DocumentData_end_documentDatas:
  "documentDatas (DocumentData_end r w) = documentDatas w"
  by (simp add: DocumentData_end_def Let_def fresh_def emit_def split: option.splits prod.splits)

lemma getOrCreateDocumentData_keeps_live:
  assumes "map_of (documentDatas w) file = Some (Some r)"
  shows "map_of (documentDatas (snd (getOrCreateDocumentData file' d mp ext w))) file
           = Some (Some r)"
proof (cases "file' = file")
  case True
  with assms show ?thesis
    by (simp add: getOrCreateDocumentData_live)
next
  case False
  with assms show ?thesis
    by (auto simp: getOrCreateDocumentData_def getDocumentData_def new_DocumentData_def Let_def
        update_conv' split: option.splits)
qed

lemma documemntProcessed_keeps_live:
  assumes "map_of (documentDatas w) file = Some (Some r)" and "file' \<noteq> file"
  shows "map_of (documentDatas (snd (documemntProcessed file' w))) file = Some (Some r)"
  using assms
  by (auto simp: documemntProcessed_def getDocumentData_def Let_def update_conv'
      DocumentData_end_documentDatas split: option.splits)

lemma run_calls_keeps_live:
  assumes "map_of (documentDatas w) file = Some (Some r)"
    and "DocumemntProcessed file \<notin> set calls"
    and "others_keep_documentDatas calls"
  shows "map_of (documentDatas (run_calls calls w)) file = Some (Some r)"
  using assms
proof (induction calls arbitrary: w)
  case Nil
  then show ?case by (simp add: run_calls_def)
next
  case (Cons c calls)
  have others: "others_keep_documentDatas calls"
    using Cons.prems(3) by (simp add: others_keep_documentDatas_def)
  have "map_of (documentDatas (run_call c w)) file = Some (Some r)"
  proof (cases c)
    case (GetOrCreateDocumentData file' d mp ext)
    with Cons.prems(1) show ?thesis
      by (simp add: getOrCreateDocumentData_keeps_live)
  next
    case (DocumemntProcessed file')
    with Cons.prems(2) have "file' \<noteq> file" by auto
    with DocumemntProcessed Cons.prems(1) show ?thesis
      by (simp add: documemntProcessed_keeps_live)
  next
    case (OtherCall f)
    with Cons.prems(3) have "documentDatas (f w) = documentDatas w"
      by (simp add: others_keep_documentDatas_def)
    with OtherCall Cons.prems(1) show ?thesis by simp
  qed
  moreover have "DocumemntProcessed file \<notin> set calls"
    using Cons.prems(2) by simp
  ultimately have "map_of (documentDatas (run_calls calls (run_call c w))) file = Some (Some r)"
    using others by (rule Cons.IH)
  then show ?case by (simp add: run_calls_def)
qed

text \<open>
  C10: let a call of \<open>getOrCreateDocumentData\<close> for a file name return a DocumentData, and
  let any calls follow it that do not include \<open>documemntProcessed\<close> of that file name: calls
  of \<open>getOrCreateDocumentData\<close> and \<open>documemntProcessed\<close> for any other file names, and steps
  of other methods. Then a call with the same file name, whatever document, moniker path
  and flag it is given, returns the same DocumentData and leaves the world as it is:
  nothing is emitted and the project's buffer of documents is unchanged. The DocumentData
  is the one that the first call created if the file name had no entry before it: a new
  object holding the document of that call, whose document vertex and begin event the
  first call emitted and whose document it put into the project's buffer. In any state
  where the file name has a live entry the call returns that entry and changes nothing.
\<close>

theorem getOrCreateDocumentData_idempotent:
  assumes "getOrCreateDocumentData file d mp ext w = (Return r, w1)"
    and "DocumemntProcessed file \<notin> set calls"
    and "others_keep_documentDatas calls"
    and "w2 = run_calls calls w1"
  shows "getOrCreateDocumentData file d' mp' ext' w2 = (Return r, w2)
     \<and> emitted (snd (getOrCreateDocumentData file d' mp' ext' w2)) = emitted w2
     \<and> pd_documents (projectData (snd (getOrCreateDocumentData file d' mp' ext' w2)))
         = pd_documents (projectData w2)
     \<and> (map_of (documentDatas w) file = None \<longrightarrow>
          r = documentCount w
          \<and> documentHeap w1 r
              = \<lparr>dd_document = d, dd_monikerPath = mp, dd_externalLibrary = ext, dd_ranges = [],
                 dd_diagnostics = None, dd_foldingRanges = None, dd_documentSymbols = None\<rparr>
          \<and> emitted w1
              = emitted w @ [Vtx (V_document d), Vtx (V_event (nextId w) begin_event (document_id d))]
                  @ (if length (pd_documents (projectData w)) < 32 then []
                     else [Edg \<lparr>edge_id = Suc (nextId w), edge_label = contains_edge,
                                outV = project_id (pd_project (projectData w)),
                                inVs = map document_id (pd_documents (projectData w) @ [d]),
                                edge_document = None, edge_property = None\<rparr>])
          \<and> pd_documents (projectData w1)
              = (if length (pd_documents (projectData w)) < 32
                 then pd_documents (projectData w) @ [d] else []))
     \<and> (\<forall>v r'. map_of (documentDatas v) file = Some (Some r')
            \<longrightarrow> getOrCreateDocumentData file d' mp' ext' v = (Return r', v))"
proof -
  from assms(1) have "map_of (documentDatas w1) file = Some (Some r)"
    by (rule getOrCreateDocumentData_registers)
  then have "map_of (documentDatas w2) file = Some (Some r)"
    unfolding assms(4) using assms(2,3) by (rule run_calls_keeps_live)
  then have second: "getOrCreateDocumentData file d' mp' ext' w2 = (Return r, w2)"
    by (rule getOrCreateDocumentData_live)
  have created: "map_of (documentDatas w) file = None \<longrightarrow>
          r = documentCount w
          \<and> documentHeap w1 r
              = \<lparr>dd_document = d, dd_monikerPath = mp, dd_externalLibrary = ext, dd_ranges = [],
                 dd_diagnostics = None, dd_foldingRanges = None, dd_documentSymbols = None\<rparr>
          \<and> emitted w1
              = emitted w @ [Vtx (V_document d), Vtx (V_event (nextId w) begin_event (document_id d))]
                  @ (if length (pd_documents (projectData w)) < 32 then []
                     else [Edg \<lparr>edge_id = Suc (nextId w), edge_label = contains_edge,
                                outV = project_id (pd_project (projectData w)),
                                inVs = map document_id (pd_documents (projectData w) @ [d]),
                                edge_document = None, edge_property = None\<rparr>])
          \<and> pd_documents (projectData w1)
              = (if length (pd_documents (projectData w)) < 32
                 then pd_documents (projectData w) @ [d] else [])"
  proof
    assume none: "map_of (documentDatas w) file = None"
    from assms(1) have r: "fst (getOrCreateDocumentData file d mp ext w) = Return r"
      and w1: "snd (getOrCreateDocumentData file d mp ext w) = w1"
      by simp_all
    from getOrCreateDocumentData_creates(1) [OF none, of d mp ext] r
    have "r = documentCount w" by simp
    then show "r = documentCount w
          \<and> documentHeap w1 r
              = \<lparr>dd_document = d, dd_monikerPath = mp, dd_externalLibrary = ext, dd_ranges = [],
                 dd_diagnostics = None, dd_foldingRanges = None, dd_documentSymbols = None\<rparr>
          \<and> emitted w1
              = emitted w @ [Vtx (V_document d), Vtx (V_event (nextId w) begin_event (document_id d))]
                  @ (if length (pd_documents (projectData w)) < 32 then []
                     else [Edg \<lparr>edge_id = Suc (nextId w), edge_label = contains_edge,
                                outV = project_id (pd_project (projectData w)),
                                inVs = map document_id (pd_documents (projectData w) @ [d]),
                                edge_document = None, edge_property = None\<rparr>])
          \<and> pd_documents (projectData w1)
              = (if length (pd_documents (projectData w)) < 32
                 then pd_documents (projectData w) @ [d] else [])"
      using getOrCreateDocumentData_creates(2-4) [OF none, of d mp ext]
      unfolding w1 by (intro conjI) simp_all
  qed
  have live: "\<forall>v r'. map_of (documentDatas v) file = Some (Some r')
            \<longrightarrow> getOrCreateDocumentData file d' mp' ext' v = (Return r', v)"
    by (simp add: getOrCreateDocumentData_live)
  from second created live show ?thesis
    by (simp only: snd_conv simp_thms)
qed

theorem getOrCreateDocumentData_idempotent_witness:
  "getOrCreateDocumentData ''a.ts'' \<lparr>document_id = 9, document_uri = ''a.ts''\<rparr> (Some ''p'') True
       (run_calls example_calls example_World)
     = (Return 0, run_calls example_calls example_World)
   \<and> emitted example_World
       = [Vtx (V_project \<lparr>project_id = 1\<rparr>), Vtx (V_event 5 begin_event 1),
          Vtx (V_document example_document), Vtx (V_event 6 begin_event 4)]
   \<and> documentHeap example_World 0
       = \<lparr>dd_document = example_document, dd_monikerPath = None, dd_externalLibrary = False,
          dd_ranges = [], dd_diagnostics = None, dd_foldingRanges = None,
          dd_documentSymbols = None\<rparr>
   \<and> pd_documents (projectData example_World) = [example_document]"
proof -
  let ?w = "new_DataManager \<lparr>project_id = 1\<rparr> (blank_World\<lparr>nextId := 5\<rparr> :: nat World)"
  have w: "documentDatas ?w = []" "documentCount ?w = 0" "nextId ?w = 6"
    "emitted ?w = [Vtx (V_project \<lparr>project_id = 1\<rparr>), Vtx (V_event 5 begin_event 1)]"
    "pd_documents (projectData ?w) = []"
    by (simp_all add: new_DataManager_def ProjectData_begin_def Let_def fresh_def blank_World_def
        emit_def)
  then have "fst (getOrCreateDocumentData ''a.ts'' example_document None False ?w) = Return 0"
    by (simp add: getOrCreateDocumentData_def getDocumentData_def new_DocumentData_def Let_def)
  then have first: "getOrCreateDocumentData ''a.ts'' example_document None False ?w
                      = (Return 0, example_World)"
    by (simp add: prod_eq_iff example_World_def)
  have no_processed: "DocumemntProcessed ''a.ts'' \<notin> set example_calls"
    by (simp add: example_calls_def)
  have others: "others_keep_documentDatas example_calls"
    by (auto simp: others_keep_documentDatas_def example_calls_def fresh_def)
  have none: "map_of (documentDatas ?w) ''a.ts'' = None"
    unfolding w by simp
  note idempotent = getOrCreateDocumentData_idempotent [OF first no_processed others refl,
         of "\<lparr>document_id = 9, document_uri = ''a.ts''\<rparr>" "Some ''p''" True]
  from idempotent
  have second: "getOrCreateDocumentData ''a.ts'' \<lparr>document_id = 9, document_uri = ''a.ts''\<rparr>
                  (Some ''p'') True (run_calls example_calls example_World)
                = (Return 0, run_calls example_calls example_World)"
    by (rule conjunct1)
  from idempotent none
  have created: "documentHeap example_World 0
       = \<lparr>dd_document = example_document, dd_monikerPath = None, dd_externalLibrary = False,
          dd_ranges = [], dd_diagnostics = None, dd_foldingRanges = None,
          dd_documentSymbols = None\<rparr>
     \<and> emitted example_World
         = emitted ?w @ [Vtx (V_document example_document),
                         Vtx (V_event (nextId ?w) begin_event (document_id example_document))]
             @ (if length (pd_documents (projectData ?w)) < 32 then []
                else [Edg \<lparr>edge_id = Suc (nextId ?w), edge_label = contains_edge,
                           outV = project_id (pd_project (projectData ?w)),
                           inVs = map document_id (pd_documents (projectData ?w) @ [example_document]),
                           edge_document = None, edge_property = None\<rparr>])
     \<and> pd_documents (projectData example_World)
         = (if length (pd_documents (projectData ?w)) < 32
            then pd_documents (projectData ?w) @ [example_document] else [])"
    by blast
  have "emitted example_World
       = [Vtx (V_project \<lparr>project_id = 1\<rparr>), Vtx (V_event 5 begin_event 1),
          Vtx (V_document example_document), Vtx (V_event 6 begin_event 4)]"
    and "pd_documents (projectData example_World) = [example_document]"
    using created unfolding w by (simp_all add: example_document_def)
  with second created show ?thesis
    by blast
qed

lemma example_calls_run:
  "map_of (documentDatas (run_calls example_calls example_World)) ''a.ts'' = Some (Some 0)"
  "map_of (documentDatas (run_calls example_calls example_World)) ''b.ts'' = Some None"
  "length (emitted (run_calls example_calls example_World)) = 8"
  by (simp_all add: run_calls_def example_calls_def example_World_def getOrCreateDocumentData_def
      getDocumentData_def new_DocumentData_def new_DataManager_def ProjectData_begin_def
      DocumentData_begin_def ProjectData_addDocument_def documemntProcessed_def DocumentData_end_def
      emit_edge_def mk_edge_def Let_def fresh_def blank_World_def emit_def example_document_def)

subsection \<open>StandardSymbolData.getOrCreatePartition\<close>

lemma partition_slot_set_partition:
  "sd_partitions (symbolHeap w h) = partitions_map m
   \<Longrightarrow> partition_slot (set_partition h file slot w) h file = Some slot"
  by (simp add: partition_slot_def set_partition_def update_conv')

text \<open>
  The case in which \<open>getOrCreatePartition\<close> constructs a partition: the symbol is not
  cleared and has no slot for the file. With a live DocumentData of the file, the new
  partition (of the document of that DocumentData) is returned and stored in the slot,
  the symbol is pushed on the \<open>clearOnNode\<close> list of the source file, and nothing is
  emitted; \<open>begin\<close> of the partition does nothing.
\<close>

lemma getOrCreatePartition_constructs:
  assumes "sd_partitions (symbolHeap w h) \<noteq> partitions_null"
    and "partition_slot w h (fileName sf) = None"
    and "map_of (documentDatas w) (fileName sf) = Some (Some r)"
  shows "\<exists>w'. getOrCreatePartition h sf w
                = (Return (new_SymbolDataPartition h (dd_document (documentHeap w r))), w')
             \<and> clearOnNode w'
                = AList.update (SourceFileNode sf)
                    ((case map_of (clearOnNode w) (SourceFileNode sf) of
                        None \<Rightarrow> [] | Some datas \<Rightarrow> datas) @ [h]) (clearOnNode w)
             \<and> partition_slot w' h (fileName sf)
                = Some (Some (new_SymbolDataPartition h (dd_document (documentHeap w r))))
             \<and> emitted w' = emitted w"
proof (cases "sd_partitions (symbolHeap w h)")
  case partitions_undefined
  then show ?thesis
    using assms(3)
    by (simp add: getOrCreatePartition_def getDocumentData_def Let_def
        SymbolDataPartition_begin_def partition_slot_set_partition)
       (simp add: manageLifeCycle_def)
next
  case partitions_null
  with assms(1) show ?thesis by simp
next
  case (partitions_map m)
  with assms(2) have "map_of m (fileName sf) = None"
    by (simp add: partition_slot_def)
  with partitions_map show ?thesis
    using assms(3)
    by (simp add: getOrCreatePartition_def getDocumentData_def Let_def
        SymbolDataPartition_begin_def partition_slot_set_partition)
       (simp add: manageLifeCycle_def)
qed

lemma getOrCreatePartition_throws:
  assumes "sd_partitions (symbolHeap w h) \<noteq> partitions_null"
    and "partition_slot w h (fileName sf) = None"
  shows "map_of (documentDatas w) (fileName sf) = None
           \<Longrightarrow> fst (getOrCreatePartition h sf w) = Throw (NoDocumentData (fileName sf))"
    and "map_of (documentDatas w) (fileName sf) = Some None
           \<Longrightarrow> fst (getOrCreatePartition h sf w) = Throw (AlreadyManagedDocument (fileName sf))"
  using assms
  by (cases "sd_partitions (symbolHeap w h)";
      simp add: getOrCreatePartition_def getDocumentData_def Let_def partition_slot_def)+

text \<open>
  C3 (amended): whenever \<open>getOrCreatePartition(file)\<close> constructs a new partition, it
  registers the source file \<open>file\<close> (the node it was called with, not the symbol's scope)
  with the DataManager's clear-on-node map, then calls the partition's \<open>begin\<close>; it throws
  if no DocumentData for that file is present (or if that DocumentData was already
  processed).
\<close>

theorem getOrCreatePartition_new_partition:
  "sd_partitions (symbolHeap w h) \<noteq> partitions_null \<and> partition_slot w h (fileName sf) = None \<longrightarrow>
     (\<forall>r. map_of (documentDatas w) (fileName sf) = Some (Some r) \<longrightarrow>
        (\<exists>w'. getOrCreatePartition h sf w
                 = (Return (SymbolDataPartition_begin
                              (new_SymbolDataPartition h (dd_document (documentHeap w r)))), w')
             \<and> clearOnNode w'
                 = AList.update (SourceFileNode sf)
                     ((case map_of (clearOnNode w) (SourceFileNode sf) of
                         None \<Rightarrow> [] | Some datas \<Rightarrow> datas) @ [h]) (clearOnNode w)
             \<and> map_of (clearOnNode w') (SourceFileNode sf)
                 = Some ((case map_of (clearOnNode w) (SourceFileNode sf) of
                            None \<Rightarrow> [] | Some datas \<Rightarrow> datas) @ [h])
             \<and> partition_slot w' h (fileName sf)
                 = Some (Some (new_SymbolDataPartition h (dd_document (documentHeap w r))))
             \<and> emitted w' = emitted w))
     \<and> (map_of (documentDatas w) (fileName sf) = None \<longrightarrow>
          fst (getOrCreatePartition h sf w) = Throw (NoDocumentData (fileName sf)))
     \<and> (map_of (documentDatas w) (fileName sf) = Some None \<longrightarrow>
          fst (getOrCreatePartition h sf w) = Throw (AlreadyManagedDocument (fileName sf)))"
proof (intro impI conjI allI)
  fix r
  assume a: "sd_partitions (symbolHeap w h) \<noteq> partitions_null
             \<and> partition_slot w h (fileName sf) = None"
    and d: "map_of (documentDatas w) (fileName sf) = Some (Some r)"
  from a have a1: "sd_partitions (symbolHeap w h) \<noteq> partitions_null"
    and a2: "partition_slot w h (fileName sf) = None"
    by simp_all
  from getOrCreatePartition_constructs [OF a1 a2 d]
  obtain w' where w': "getOrCreatePartition h sf w
        = (Return (new_SymbolDataPartition h (dd_document (documentHeap w r))), w')"
    "clearOnNode w' = AList.update (SourceFileNode sf)
        ((case map_of (clearOnNode w) (SourceFileNode sf) of
            None \<Rightarrow> [] | Some datas \<Rightarrow> datas) @ [h]) (clearOnNode w)"
    "partition_slot w' h (fileName sf)
        = Some (Some (new_SymbolDataPartition h (dd_document (documentHeap w r))))"
    "emitted w' = emitted w"
    by (elim exE conjE)
  show "\<exists>w'. getOrCreatePartition h sf w
                 = (Return (SymbolDataPartition_begin
                              (new_SymbolDataPartition h (dd_document (documentHeap w r)))), w')
             \<and> clearOnNode w'
                 = AList.update (SourceFileNode sf)
                     ((case map_of (clearOnNode w) (SourceFileNode sf) of
                         None \<Rightarrow> [] | Some datas \<Rightarrow> datas) @ [h]) (clearOnNode w)
             \<and> map_of (clearOnNode w') (SourceFileNode sf)
                 = Some ((case map_of (clearOnNode w) (SourceFileNode sf) of
                            None \<Rightarrow> [] | Some datas \<Rightarrow> datas) @ [h])
             \<and> partition_slot w' h (fileName sf)
                 = Some (Some (new_SymbolDataPartition h (dd_document (documentHeap w r))))
             \<and> emitted w' = emitted w"
    using w' by (intro exI [of _ w']) (simp add: SymbolDataPartition_begin_def update_conv')
next
  assume "sd_partitions (symbolHeap w h) \<noteq> partitions_null
          \<and> partition_slot w h (fileName sf) = None"
    and "map_of (documentDatas w) (fileName sf) = None"
  then show "fst (getOrCreatePartition h sf w) = Throw (NoDocumentData (fileName sf))"
    using getOrCreatePartition_throws(1) by blast
next
  assume "sd_partitions (symbolHeap w h) \<noteq> partitions_null
          \<and> partition_slot w h (fileName sf) = None"
    and "map_of (documentDatas w) (fileName sf) = Some None"
  then show "fst (getOrCreatePartition h sf w) = Throw (AlreadyManagedDocument (fileName sf))"
    using getOrCreatePartition_throws(2) by blast
qed

lemma example_World_fields:
  "documentDatas example_World = [(''a.ts'', Some 0)]"
  "documentHeap example_World 0 =
     \<lparr>dd_document = example_document, dd_monikerPath = None, dd_externalLibrary = False,
      dd_ranges = [], dd_diagnostics = None, dd_foldingRanges = None, dd_documentSymbols = None\<rparr>"
  "symbolCount example_World = 0"
  "clearOnNode example_World = []"
  "symbolDatas example_World = []"
  "nextId example_World = 7"
  "emitted example_World =
     [Vtx (V_project \<lparr>project_id = 1\<rparr>), Vtx (V_event 5 begin_event 1),
      Vtx (V_document example_document), Vtx (V_event 6 begin_event 4)]"
  "pd_documents (projectData example_World) = [example_document]"
  "pd_project (projectData example_World) = \<lparr>project_id = 1\<rparr>"
  by (simp_all add: example_World_def getOrCreateDocumentData_def getDocumentData_def
      new_DocumentData_def new_DataManager_def ProjectData_begin_def DocumentData_begin_def
      ProjectData_addDocument_def Let_def fresh_def blank_World_def emit_def example_document_def)

lemma example_scoped_World_fields:
  "documentDatas example_scoped_World = [(''a.ts'', Some 0)]"
  "documentHeap example_scoped_World = documentHeap example_World"
  "clearOnNode example_scoped_World = []"
  "symbolDatas example_scoped_World = []"
  "nextId example_scoped_World = 8"
  "emitted example_scoped_World = emitted example_World"
  "symbolHeap example_scoped_World 0 =
     \<lparr>sd_id = ''s'', sd_resultSet = 7, sd_declarationInfo = info_undefined,
      sd_definitionResult = None, sd_referenceResult = None,
      sd_partitions = partitions_undefined, sd_scope = Some (OtherNode 7),
      sd_variant = Standard\<rparr>"
  by (simp_all add: example_scoped_World_def new_SymbolData_def fresh_def example_World_fields)

text \<open>
  C3 (as stated): fails. The symbol 0 of the example has the scope node 7; the call
  \<open>getOrCreatePartition(a.ts)\<close> constructs its partition and leaves \<open>clearOnNode\<close> with the
  single key \<open>a.ts\<close>: the scope node is not registered.
\<close>

theorem getOrCreatePartition_scope_counterexample:
  "sd_scope (symbolHeap example_scoped_World 0) = Some (OtherNode 7)
   \<and> fst (getOrCreatePartition 0 example_file example_scoped_World)
       = Return (new_SymbolDataPartition 0 example_document)
   \<and> clearOnNode (snd (getOrCreatePartition 0 example_file example_scoped_World))
       = [(SourceFileNode example_file, [0])]
   \<and> map_of (clearOnNode (snd (getOrCreatePartition 0 example_file example_scoped_World)))
        (OtherNode 7) = None"
  by (simp add: getOrCreatePartition_def getDocumentData_def Let_def example_scoped_World_fields
      example_World_fields example_file_def manageLifeCycle_def SymbolDataPartition_begin_def)

theorem getOrCreatePartition_new_partition_witness:
  "fst (getOrCreatePartition 0 example_file example_scoped_World)
     = Return (new_SymbolDataPartition 0 example_document)
   \<and> map_of (clearOnNode (snd (getOrCreatePartition 0 example_file example_scoped_World)))
        (SourceFileNode example_file) = Some [0]
   \<and> fst (getOrCreatePartition 0 (example_file\<lparr>fileName := ''b.ts''\<rparr>) example_scoped_World)
       = Throw (NoDocumentData ''b.ts'')"
proof -
  have p: "sd_partitions (symbolHeap example_scoped_World 0) \<noteq> partitions_null"
    "partition_slot example_scoped_World 0 (fileName example_file) = None"
    "partition_slot example_scoped_World 0 (fileName (example_file\<lparr>fileName := ''b.ts''\<rparr>)) = None"
    by (simp_all add: example_scoped_World_fields partition_slot_def)
  have d: "map_of (documentDatas example_scoped_World) (fileName example_file) = Some (Some 0)"
    "map_of (documentDatas example_scoped_World) (fileName (example_file\<lparr>fileName := ''b.ts''\<rparr>))
       = None"
    by (simp_all add: example_scoped_World_fields example_file_def)
  from getOrCreatePartition_new_partition [of example_scoped_World 0 example_file] p d
  obtain w' where "getOrCreatePartition 0 example_file example_scoped_World
      = (Return (SymbolDataPartition_begin
           (new_SymbolDataPartition 0 (dd_document (documentHeap example_scoped_World 0)))), w')"
    and "map_of (clearOnNode w') (SourceFileNode example_file)
      = Some ((case map_of (clearOnNode example_scoped_World) (SourceFileNode example_file) of
                 None \<Rightarrow> [] | Some datas \<Rightarrow> datas) @ [0])"
    by auto
  moreover
  from getOrCreatePartition_new_partition
         [of example_scoped_World 0 "example_file\<lparr>fileName := ''b.ts''\<rparr>"] p d
  have "fst (getOrCreatePartition 0 (example_file\<lparr>fileName := ''b.ts''\<rparr>) example_scoped_World)
          = Throw (NoDocumentData ''b.ts'')"
    by simp
  ultimately show ?thesis
    by (simp add: SymbolDataPartition_begin_def example_scoped_World_fields example_World_fields)
qed

subsection \<open>Properties kept by a method whatever its outcome\<close>

text \<open>
  \<open>keeps P m\<close>: if \<open>P\<close> holds of the world before \<open>m\<close>, it holds of the world after it,
  whether \<open>m\<close> returned or threw.
\<close>

definition keeps :: "('w \<Rightarrow> bool) \<Rightarrow> ('w \<Rightarrow> 'a Outcome \<times> 'w) \<Rightarrow> bool" where
  "keeps P m \<longleftrightarrow> (\<forall>w. P w \<longrightarrow> P (snd (m w)))"

lemma keepsI: "(\<And>w. P w \<Longrightarrow> P (snd (m w))) \<Longrightarrow> keeps P m"
  by (simp add: keeps_def)

lemma keepsD: "keeps P m \<Longrightarrow> P w \<Longrightarrow> P (snd (m w))"
  by (simp add: keeps_def)

lemma keepsD2: "keeps P m \<Longrightarrow> P w \<Longrightarrow> m w = (out, w1) \<Longrightarrow> P w1"
  by (auto simp: keeps_def dest: spec [where x = w])

lemma keeps_ret [intro!, simp]: "keeps P (ret x)"
  by (simp add: keeps_def ret_def)

lemma keeps_throw [intro!, simp]: "keeps P (throw e)"
  by (simp add: keeps_def throw_def)

lemma keeps_lift: "(\<And>w. P w \<Longrightarrow> P (g w)) \<Longrightarrow> keeps P (lift g)"
  by (simp add: keeps_def lift_def)

lemma keeps_seq: "keeps P m \<Longrightarrow> (\<And>x. keeps P (f x)) \<Longrightarrow> keeps P (seq m f)"
  unfolding keeps_def seq_def
  by (auto split: prod.splits Outcome.splits)

lemma keeps_forEach: "(\<And>x. x \<in> set xs \<Longrightarrow> keeps P (body x)) \<Longrightarrow> keeps P (forEach xs body)"
proof (induction xs)
  case Nil
  show ?case by (simp add: keeps_def)
next
  case (Cons x xs)
  have x: "keeps P (body x)" and xs: "keeps P (forEach xs body)"
    using Cons by simp_all
  show ?case
  proof (rule keepsI)
    fix w assume "P w"
    with x have 1: "P (snd (body x w))" by (rule keepsD)
    show "P (snd (forEach (x # xs) body w))"
    proof (cases "body x w")
      case (Pair out w1)
      with 1 have "P w1" by simp
      with xs have "P (snd (forEach xs body w1))" by (rule keepsD)
      with Pair \<open>P w1\<close> show ?thesis by (cases out) simp_all
    qed
  qed
qed

lemma keeps_pure: "(\<And>w. P w \<Longrightarrow> P (snd (m w))) \<Longrightarrow> keeps P (\<lambda>w. (fst (m w), snd (m w)))"
  by (simp add: keeps_def)

subsection \<open>StandardSymbolData.nodeProcessed\<close>

lemma getOrCreateDefinitionResult_partitions:
  "sd_partitions (symbolHeap (snd (getOrCreateDefinitionResult g w)) h) = sd_partitions (symbolHeap w h)"
  by (simp add: getOrCreateDefinitionResult_def fresh_def Let_def split: option.splits)

lemma getOrCreateReferenceResult_partitions:
  "sd_partitions (symbolHeap (snd (getOrCreateReferenceResult g w)) h) = sd_partitions (symbolHeap w h)"
  by (simp add: getOrCreateReferenceResult_def StandardSymbolData_getOrCreateReferenceResult_def
      fresh_def Let_def split: option.splits Variant.splits)

lemma emit_reference_items_symbolHeap [simp]:
  "symbolHeap (emit_reference_items rr doc m keys w) = symbolHeap w"
  unfolding emit_reference_items_def
  by (induction keys arbitrary: w) (simp_all split: option.splits)

lemma getOrCreateReferenceResult_keeps_partitions:
  "keeps (\<lambda>w. sd_partitions (symbolHeap w h) = c) (getOrCreateReferenceResult g)"
  by (rule keepsI) (simp add: getOrCreateReferenceResult_partitions)

lemma SymbolDataPartition_end_keeps_partitions:
  "keeps (\<lambda>w. sd_partitions (symbolHeap w h) = c) (SymbolDataPartition_end p)"
  unfolding SymbolDataPartition_end_def
proof (intro keeps_seq)
  show "keeps (\<lambda>w. sd_partitions (symbolHeap w h) = c)
          (case sp_definitionRanges p of
             None \<Rightarrow> ret ()
           | Some ds \<Rightarrow> (\<lambda>w. case getOrCreateDefinitionResult (sp_symbolData p) w of
                (definitionResult, w1) \<Rightarrow>
                  (Return (), emit_edge item_edge definitionResult (map range_id ds)
                                (Some (document_id (sp_document p))) None w1)))"
    using getOrCreateDefinitionResult_partitions [where h = h and g = "sp_symbolData p"]
    by (auto simp: keeps_def ret_def split: option.splits prod.splits
        dest!: arg_cong [where f = snd])
next
  fix u :: unit
  show "keeps (\<lambda>w. sd_partitions (symbolHeap w h) = c)
          (case sp_referenceRanges p of
             None \<Rightarrow> ret ()
           | Some m \<Rightarrow> seq (getOrCreateReferenceResult (sp_symbolData p))
                (\<lambda>referenceResult. lift (emit_reference_items referenceResult
                                            (document_id (sp_document p)) m (map fst m))))"
    by (cases "sp_referenceRanges p")
       (auto intro!: keeps_seq keeps_lift getOrCreateReferenceResult_keeps_partitions)
next
  fix u :: unit
  show "keeps (\<lambda>w. sd_partitions (symbolHeap w h) = c)
          (case sp_referenceResults p of
             None \<Rightarrow> ret ()
           | Some rs \<Rightarrow> seq (getOrCreateReferenceResult (sp_symbolData p))
                (\<lambda>referenceResult. lift (emit_edge item_edge referenceResult rs
                                            (Some (document_id (sp_document p))) None)))"
    by (cases "sp_referenceResults p")
       (auto intro!: keeps_seq keeps_lift getOrCreateReferenceResult_keeps_partitions)
qed

lemma SymbolDataPartition_end_partitions:
  "SymbolDataPartition_end p w = (out, w1)
   \<Longrightarrow> sd_partitions (symbolHeap w1 h) = sd_partitions (symbolHeap w h)"
  using SymbolDataPartition_end_keeps_partitions
          [of h "sd_partitions (symbolHeap w h)" p, THEN keepsD, of w]
  by simp

text \<open>
  C2 (as stated): fails on a symbol whose partitions are still undefined (no partition
  was asked for yet). The symbol 0 of the example has the scope node 7. The call with
  node 8, neither its scope nor a source file, returns true and raises nothing; the call
  with its scope returns true and leaves the partitions undefined, not cleared, so that
  the same call once more still returns true instead of raising.
\<close>

theorem nodeProcessed_undefined_counterexample:
  "sd_scope (symbolHeap example_scoped_World 0) = Some (OtherNode 7)
   \<and> nodeProcessed 0 (OtherNode 8) example_scoped_World = (Return True, example_scoped_World)
   \<and> nodeProcessed 0 (OtherNode 7) example_scoped_World = (Return True, example_scoped_World)
   \<and> sd_partitions (symbolHeap (snd (nodeProcessed 0 (OtherNode 7) example_scoped_World)) 0)
       = partitions_undefined
   \<and> fst (nodeProcessed 0 (OtherNode 7) (snd (nodeProcessed 0 (OtherNode 7) example_scoped_World)))
       = Return True"
  by (simp add: nodeProcessed_def example_scoped_World_fields)

text \<open>
  C2 (amended). \<open>nodeProcessed(node)\<close> on a symbol
  \<^item> whose partitions are undefined returns true and changes nothing;
  \<^item> that has been cleared raises an error;
  \<^item> otherwise, if the node is the symbol's scope: with exactly one slot in the map, the
    partition of the slot is flushed (if the slot is not a tombstone), the partitions
    become cleared and the call returns true; with another number of slots it raises;
  \<^item> otherwise, if the node is a source file: the partition of that file is flushed, its
    slot becomes a tombstone and the call returns false; it raises if the slot is a
    tombstone or absent;
  \<^item> otherwise raises.
  An exception of the flush leaves the call. After the call has cleared the symbol, every
  further call raises.
\<close>

theorem nodeProcessed_cases:
  "(sd_partitions (symbolHeap w h) = partitions_undefined \<longrightarrow>
      nodeProcessed h node w = (Return True, w))
   \<and> (sd_partitions (symbolHeap w h) = partitions_null \<longrightarrow>
      nodeProcessed h node w = (Throw (PartitionsAlreadyCleared (sd_id (symbolHeap w h))), w))
   \<and> (\<forall>m. sd_partitions (symbolHeap w h) = partitions_map m \<and> Some node = sd_scope (symbolHeap w h) \<longrightarrow>
        (length m \<noteq> 1 \<longrightarrow> nodeProcessed h node w = (Throw LocalSymbolMoreThanOnePartition, w))
      \<and> (\<forall>file. m = [(file, None)] \<longrightarrow>
            nodeProcessed h node w
              = (Return True, update_symbol h (\<lambda>s. s\<lparr>sd_partitions := partitions_null\<rparr>) w))
      \<and> (\<forall>file p w1. m = [(file, Some p)] \<and> SymbolDataPartition_end p w = (Return (), w1) \<longrightarrow>
            nodeProcessed h node w
              = (Return True, update_symbol h (\<lambda>s. s\<lparr>sd_partitions := partitions_null\<rparr>) w1)
            \<and> (\<forall>node'. fst (nodeProcessed h node' (snd (nodeProcessed h node w)))
                  = Throw (PartitionsAlreadyCleared (sd_id (symbolHeap w1 h)))))
      \<and> (\<forall>file p e w1. m = [(file, Some p)] \<and> SymbolDataPartition_end p w = (Throw e, w1) \<longrightarrow>
            nodeProcessed h node w = (Throw e, w1)))
   \<and> (\<forall>m f. sd_partitions (symbolHeap w h) = partitions_map m \<and> Some node \<noteq> sd_scope (symbolHeap w h)
          \<and> node = SourceFileNode f \<longrightarrow>
        (map_of m (fileName f) = Some None \<longrightarrow>
           nodeProcessed h node w = (Throw (PartitionForFileCleared (fileName f)), w))
      \<and> (map_of m (fileName f) = None \<longrightarrow>
           nodeProcessed h node w = (Throw (NoPartitionManaged (fileName f)), w))
      \<and> (\<forall>p w1. map_of m (fileName f) = Some (Some p)
              \<and> SymbolDataPartition_end p w = (Return (), w1) \<longrightarrow>
            nodeProcessed h node w = (Return False, set_partition h (fileName f) None w1)
            \<and> partition_slot (snd (nodeProcessed h node w)) h (fileName f) = Some None)
      \<and> (\<forall>p e w1. map_of m (fileName f) = Some (Some p)
              \<and> SymbolDataPartition_end p w = (Throw e, w1) \<longrightarrow>
            nodeProcessed h node w = (Throw e, w1)))
   \<and> (\<forall>m n. sd_partitions (symbolHeap w h) = partitions_map m \<and> Some node \<noteq> sd_scope (symbolHeap w h)
          \<and> node = OtherNode n \<longrightarrow>
        nodeProcessed h node w = (Throw NeitherSourceFileNorScope, w))"
proof (intro conjI allI impI; (elim conjE)?)
  show "nodeProcessed h node w = (Return True, w)"
    if "sd_partitions (symbolHeap w h) = partitions_undefined"
    using that by (simp add: nodeProcessed_def)
  show "nodeProcessed h node w = (Throw (PartitionsAlreadyCleared (sd_id (symbolHeap w h))), w)"
    if "sd_partitions (symbolHeap w h) = partitions_null"
    using that by (simp add: nodeProcessed_def)
next
  fix m
  assume m: "sd_partitions (symbolHeap w h) = partitions_map m"
    and scope: "Some node = sd_scope (symbolHeap w h)"
  show "nodeProcessed h node w = (Throw LocalSymbolMoreThanOnePartition, w)" if "length m \<noteq> 1"
    using that m scope by (simp add: nodeProcessed_def)
  show "nodeProcessed h node w
          = (Return True, update_symbol h (\<lambda>s. s\<lparr>sd_partitions := partitions_null\<rparr>) w)"
    if "m = [(fl, None)]" for fl
    using that m scope by (simp add: nodeProcessed_def seq_ret)
  {
    fix fl p w1
    assume one: "m = [(fl, Some p)]" and flush: "SymbolDataPartition_end p w = (Return (), w1)"
    show r: "nodeProcessed h node w
          = (Return True, update_symbol h (\<lambda>s. s\<lparr>sd_partitions := partitions_null\<rparr>) w1)"
      using one flush m scope by (simp add: nodeProcessed_def seq_Return)
    show "fst (nodeProcessed h node' (snd (nodeProcessed h node w)))
            = Throw (PartitionsAlreadyCleared (sd_id (symbolHeap w1 h)))" for node'
      unfolding r by (simp add: nodeProcessed_def)
  }
  show "nodeProcessed h node w = (Throw e, w1)"
    if "m = [(fl, Some p)]" and "SymbolDataPartition_end p w = (Throw e, w1)" for fl p e w1
    using that m scope by (simp add: nodeProcessed_def seq_Throw)
next
  fix m f
  assume m: "sd_partitions (symbolHeap w h) = partitions_map m"
    and scope: "Some node \<noteq> sd_scope (symbolHeap w h)"
    and node: "node = SourceFileNode f"
  show "nodeProcessed h node w = (Throw (PartitionForFileCleared (fileName f)), w)"
    if "map_of m (fileName f) = Some None"
    using that m scope node by (simp add: nodeProcessed_def)
  show "nodeProcessed h node w = (Throw (NoPartitionManaged (fileName f)), w)"
    if "map_of m (fileName f) = None"
    using that m scope node by (simp add: nodeProcessed_def)
  {
    fix p w1
    assume slot: "map_of m (fileName f) = Some (Some p)"
      and flush: "SymbolDataPartition_end p w = (Return (), w1)"
    show r: "nodeProcessed h node w = (Return False, set_partition h (fileName f) None w1)"
      using slot flush m scope node by (simp add: nodeProcessed_def seq_Return)
    have "sd_partitions (symbolHeap w1 h) = partitions_map m"
      using SymbolDataPartition_end_partitions [OF flush, of h] m by simp
    then show "partition_slot (snd (nodeProcessed h node w)) h (fileName f) = Some None"
      unfolding r by (simp add: partition_slot_set_partition)
  }
  show "nodeProcessed h node w = (Throw e, w1)"
    if "map_of m (fileName f) = Some (Some p)" and "SymbolDataPartition_end p w = (Throw e, w1)"
    for p e w1
    using that m scope node by (simp add: nodeProcessed_def seq_Throw)
next
  fix m n
  assume "sd_partitions (symbolHeap w h) = partitions_map m"
    and "Some node \<noteq> sd_scope (symbolHeap w h)" and "node = OtherNode n"
  then show "nodeProcessed h node w = (Throw NeitherSourceFileNorScope, w)"
    by (simp add: nodeProcessed_def)
qed

lemma example_partition_World_fields:
  "symbolHeap example_partition_World 0 =
     \<lparr>sd_id = ''s'', sd_resultSet = 7, sd_declarationInfo = info_undefined,
      sd_definitionResult = None, sd_referenceResult = None,
      sd_partitions = partitions_map [(''a.ts'', Some (new_SymbolDataPartition 0 example_document))],
      sd_scope = Some (OtherNode 7), sd_variant = Standard\<rparr>"
  "clearOnNode example_partition_World = [(SourceFileNode example_file, [0])]"
  "emitted example_partition_World = emitted example_World"
  "nextId example_partition_World = 8"
  "documentDatas example_partition_World = [(''a.ts'', Some 0)]"
  "symbolDatas example_partition_World = []"
  by (simp_all add: example_partition_World_def getOrCreatePartition_def getDocumentData_def
      Let_def example_scoped_World_fields example_World_fields example_file_def
      manageLifeCycle_def SymbolDataPartition_begin_def set_partition_def)

lemma SymbolDataPartition_end_new:
  "SymbolDataPartition_end (new_SymbolDataPartition h d) w = (Return (), w)"
  by (simp add: SymbolDataPartition_end_def new_SymbolDataPartition_def seq_ret ret_def)

theorem nodeProcessed_cases_witness:
  "nodeProcessed 0 (OtherNode 8) example_scoped_World = (Return True, example_scoped_World)
   \<and> nodeProcessed 0 (OtherNode 7) example_partition_World
       = (Return True,
          update_symbol 0 (\<lambda>s. s\<lparr>sd_partitions := partitions_null\<rparr>) example_partition_World)
   \<and> fst (nodeProcessed 0 (OtherNode 7) (snd (nodeProcessed 0 (OtherNode 7) example_partition_World)))
       = Throw (PartitionsAlreadyCleared ''s'')
   \<and> nodeProcessed 0 (SourceFileNode example_file) example_partition_World
       = (Return False, set_partition 0 ''a.ts'' None example_partition_World)
   \<and> partition_slot (snd (nodeProcessed 0 (SourceFileNode example_file) example_partition_World))
        0 ''a.ts'' = Some None
   \<and> nodeProcessed 0 (OtherNode 8) example_partition_World
       = (Throw NeitherSourceFileNorScope, example_partition_World)"
proof -
  let ?p = "new_SymbolDataPartition 0 example_document"
  let ?m = "[(''a.ts'', Some ?p)]"
  have u: "sd_partitions (symbolHeap example_scoped_World 0) = partitions_undefined"
    by (simp add: example_scoped_World_fields)
  have m: "sd_partitions (symbolHeap example_partition_World 0) = partitions_map ?m"
    and scope: "Some (OtherNode 7) = sd_scope (symbolHeap example_partition_World 0)"
    and nscope: "Some (SourceFileNode example_file) \<noteq> sd_scope (symbolHeap example_partition_World 0)"
      "Some (OtherNode 8) \<noteq> sd_scope (symbolHeap example_partition_World 0)"
    and sid: "sd_id (symbolHeap example_partition_World 0) = ''s''"
    by (simp_all add: example_partition_World_fields)
  have flush: "SymbolDataPartition_end ?p example_partition_World = (Return (), example_partition_World)"
    by (rule SymbolDataPartition_end_new)
  have slot: "map_of ?m (fileName example_file) = Some (Some ?p)"
    by (simp add: example_file_def)
  have name: "fileName example_file = ''a.ts''"
    by (simp add: example_file_def)
  note c1 = nodeProcessed_cases [of example_scoped_World 0 "OtherNode 8"]
  note c2 = nodeProcessed_cases [of example_partition_World 0 "OtherNode 7"]
  note c3 = nodeProcessed_cases [of example_partition_World 0 "SourceFileNode example_file"]
  note c4 = nodeProcessed_cases [of example_partition_World 0 "OtherNode 8"]
  have 1: "nodeProcessed 0 (OtherNode 8) example_scoped_World = (Return True, example_scoped_World)"
    using c1 u by blast
  have 2: "nodeProcessed 0 (OtherNode 7) example_partition_World
       = (Return True,
          update_symbol 0 (\<lambda>s. s\<lparr>sd_partitions := partitions_null\<rparr>) example_partition_World)
     \<and> (\<forall>node'. fst (nodeProcessed 0 node' (snd (nodeProcessed 0 (OtherNode 7) example_partition_World)))
                  = Throw (PartitionsAlreadyCleared (sd_id (symbolHeap example_partition_World 0))))"
    using c2 m scope flush by blast
  have 3: "nodeProcessed 0 (SourceFileNode example_file) example_partition_World
       = (Return False, set_partition 0 (fileName example_file) None example_partition_World)
     \<and> partition_slot (snd (nodeProcessed 0 (SourceFileNode example_file) example_partition_World))
          0 (fileName example_file) = Some None"
    using c3 m nscope(1) flush slot by blast
  have 4: "nodeProcessed 0 (OtherNode 8) example_partition_World
       = (Throw NeitherSourceFileNorScope, example_partition_World)"
    using c4 m nscope(2) by blast
  from 1 2 [unfolded sid] 3 [unfolded name] 4 show ?thesis
    by blast
qed

subsection \<open>MethodSymbolData.addDefinition\<close>











lemma partition_slot_emit_edge [simp]:
  "partition_slot (emit_edge l out ins doc prop w) g fl = partition_slot w g fl"
  by (simp add: partition_slot_def)






subsection \<open>Ignored files\<close>





























subsection \<open>Symbols.findBaseMembers\<close>

text \<open>
  C6 (the code at the failing input). With the four classes of the example and new
  caches, three calls in a row:
  \<^item> \<open>findBaseMembers(B1, m)\<close> returns \<open>[A.m]\<close> and caches this array for \<open>B1\<close>;
  \<^item> \<open>findBaseMembers(S, m)\<close> takes the cached array of \<open>B1\<close> as its own result
    (\<open>result = baseResult\<close>) and pushes \<open>B2.m\<close> on it: it returns \<open>[A.m, B2.m]\<close>;
  \<^item> \<open>findBaseMembers(B1, m)\<close> now returns \<open>[A.m, B2.m]\<close>, although \<open>B2\<close> is no base of \<open>B1\<close>.
  A result that is absent stays absent: the two calls for \<open>A\<close>, which has no bases.
\<close>

theorem findBaseMembers_aliasing:
  "returned_members (findBaseMembers 5 example_TypeChecker 1 ''m'' new_Symbols) = Return (Some [13])
   \<and> returned_members
        (findBaseMembers 5 example_TypeChecker 0 ''m''
           (snd (findBaseMembers 5 example_TypeChecker 1 ''m'' new_Symbols)))
      = Return (Some [13, 12])
   \<and> returned_members
        (findBaseMembers 5 example_TypeChecker 1 ''m''
           (snd (findBaseMembers 5 example_TypeChecker 0 ''m''
                   (snd (findBaseMembers 5 example_TypeChecker 1 ''m'' new_Symbols)))))
      = Return (Some [13, 12])
   \<and> returned_members (findBaseMembers 5 example_TypeChecker 3 ''m'' new_Symbols) = Return None
   \<and> returned_members
        (findBaseMembers 5 example_TypeChecker 3 ''m''
           (snd (findBaseMembers 5 example_TypeChecker 3 ''m'' new_Symbols)))
      = Return None"
  by code_simp

subsection \<open>The visit of an ignored file\<close>















end
